theory Spec2Isabelle
  imports Main "HOL-Library.Word"
begin

section \<open>Values exchanged by the entry orchestrator (src/cmd/enter.go)\<close>

text \<open>
  A Go \<open>error\<close> value. \<open>ErrorsNew\<close> carries the message of \<open>errors.New\<close> and
  \<open>fmt.Errorf\<close>. The two \<open>CreateError...\<close> constructors stand for the results of the
  functions of that name in package \<open>utils\<close>, whose bodies are not part of enter.go; they
  keep the arguments of the call. \<open>CollaboratorError\<close> is an error returned by a
  collaborator and handed on unchanged.
\<close>

datatype err =
    ErrorsNew string
  | CreateErrorContainerNotFound string string
  | CreateErrorInvalidRelease string
  | CollaboratorError string

text \<open>How a Go function of result type \<open>error\<close> ends: it returns \<open>nil\<close>
  (\<open>Return None\<close>), returns an error, or panics.\<close>

datatype outcome = Return "err option" | Panic string

text \<open>An element of the slice returned by \<open>listContainers\<close>; enter.go reads only
  its field \<open>Names\<close>.\<close>

record toolboxContainer =
  Names :: "string list"

text \<open>
  The observable actions of one run, in the order in which they happen: calls to the
  container engine and to the helpers that reach it, the prompt, what is printed on
  standard output and standard error, the polls of the initialization stamp, the
  one-second sleeps and the wrapped subprocess. Debug logging (\<open>logrus.Debugf\<close>) and
  the look-ups of host data are not recorded.
\<close>

datatype event =
    E_ForwardToHost
  | E_ContainerExists string
  | E_listContainers
  | E_AskForConfirmation string
  | E_createContainer string string string bool
  | E_Stdout string
  | E_Stderr string
  | E_callFlatpakSessionHelper string
  | E_startContainer string
  | E_getEntryPointAndPID string
  | E_PathExists string
  | E_Sleep_Second
  | E_isCommandPresent string string
  | E_CheckVersion string
  | E_RunWithExitCode string "string list"
  | E_isPathPresent string string

section \<open>The collaborators\<close>

text \<open>
  Everything enter.go calls but does not define: the packages \<open>utils\<close>, \<open>podman\<close> and
  \<open>shell\<close>, the sibling functions of package \<open>cmd\<close> and its package-level variables.
  Each is a parameter. A collaborator of Go type \<open>(T, error)\<close> whose value is used is a
  sum (\<open>Inl\<close> the error); one whose result is only tested against \<open>nil\<close> is the
  boolean \<open>err == nil\<close> or an \<open>err option\<close> when the error is returned to the caller.
  \<open>pathExists\<close> takes the number of seconds slept so far: the stamp is written by the
  container's entry point while this program waits, so the answer changes with time.
  Every other collaborator is called at most once per run.
\<close>

record world =
  isInsideContainer :: bool
  isInsideToolboxContainer :: bool
  forwardToHost :: "err option"
  isContainerNameValid :: "string \<Rightarrow> bool"
  containerNameRegexp :: string
  executableBase :: string
  enterFlags_container :: string
  enterFlags_release :: string
  rootFlags_assumeYes :: bool
  parseRelease :: "string \<Rightarrow> string option"
  resolveContainerAndImageNames ::
    "string \<Rightarrow> string \<Rightarrow> string \<Rightarrow> err + (string \<times> string \<times> string)"
  getenv :: "string \<Rightarrow> string"
  getHostID :: "string option"
  getHostVariantID :: "string option"
  containerExists :: "string \<Rightarrow> bool"
  listContainers :: "err + toolboxContainer list"
  askForConfirmation :: "string \<Rightarrow> bool"
  createContainer :: "string \<Rightarrow> string \<Rightarrow> string \<Rightarrow> bool \<Rightarrow> err option"
  callFlatpakSessionHelper :: "string \<Rightarrow> err option"
  startContainer :: "string \<Rightarrow> err option"
  getEntryPointAndPID :: "string \<Rightarrow> err + (string \<times> int)"
  getRuntimeDirectory :: "err + string"
  pathExists :: "nat \<Rightarrow> string \<Rightarrow> bool"
  isCommandPresent :: "string \<Rightarrow> string \<Rightarrow> bool"
  checkVersion :: "string \<Rightarrow> bool"
  getEnvOptionsForPreservedVariables :: "string list"
  logLevel :: string
  currentUser_Username :: string
  currentUser_Uid :: string
  workingDirectory :: string
  runWithExitCode :: "string \<Rightarrow> string list \<Rightarrow> int \<times> err option"
  isPathPresent :: "string \<Rightarrow> string \<Rightarrow> bool"

section \<open>Helpers\<close>

text \<open>Puts the actions that already happened in front of those of the rest of the run.\<close>

definition prepend :: "event list \<Rightarrow> 'a \<times> event list \<Rightarrow> 'a \<times> event list" where
  "prepend evs r = (fst r, evs @ snd r)"

text \<open>The verb \<open>%d\<close> of package \<open>fmt\<close>: decimal digits, with a minus sign.\<close>

fun decimal :: "nat \<Rightarrow> string" where
  "decimal n =
     (if n < 10 then [''0123456789'' ! n]
      else decimal (n div 10) @ [''0123456789'' ! (n mod 10)])"

declare decimal.simps [simp del]

definition fmt_d :: "int \<Rightarrow> string" where
  "fmt_d i = (if i < 0 then ''-'' @ decimal (nat (- i)) else decimal (nat i))"

section \<open>enterContainer, from its end to its start\<close>

subsection \<open>Lines 348 to 371: the exit code of the wrapped process\<close>

text \<open>\<open>command[0]\<close> panics on an empty slice; the runtime's message is kept short.\<close>

definition classifyExitCode ::
  "world \<Rightarrow> string \<Rightarrow> string list \<Rightarrow> int \<Rightarrow> err option \<Rightarrow> outcome \<times> event list" where
  "classifyExitCode w container command exitCode e =
     (if exitCode = 0 then
        (case e of
           Some _ \<Rightarrow> (Panic ''unexpected error: 'podman exec' finished successfully'', [])
         | None \<Rightarrow> (Return None, []))
      else if exitCode = 125 then
        (Return (Some (ErrorsNew
           (''failed to invoke 'podman exec' in container '' @ container))), [])
      else if exitCode = 126 then
        (case command of
           [] \<Rightarrow> (Panic ''index out of range'', [])
         | c0 # _ \<Rightarrow>
             (Return (Some (ErrorsNew
                (''failed to invoke command '' @ c0 @ '' in container '' @ container))), []))
      else if exitCode = 127 then
        prepend [E_isPathPresent container (workingDirectory w)]
          (if \<not> isPathPresent w container (workingDirectory w) then
             (Return (Some (ErrorsNew
                (''directory '' @ workingDirectory w @ '' not found in container ''
                   @ container))), [])
           else
             (case command of
                [] \<Rightarrow> (Panic ''index out of range'', [])
              | c0 # _ \<Rightarrow>
                  (Return (Some (ErrorsNew
                     (''command '' @ c0 @ '' not found in container '' @ container))), [])))
      else (Return None, []))"

subsection \<open>Lines 297 to 330: the argument vector of podman exec\<close>

definition execArgs :: "world \<Rightarrow> string \<Rightarrow> string list \<Rightarrow> string list" where
  "execArgs w container command =
     (let detachKeys = (if checkVersion w ''1.8.1'' then [''--detach-keys'', ''''] else []);
          envOptions = getEnvOptionsForPreservedVariables w;
          logLevelString = logLevel w;
          execArgs0 = [''--log-level'', logLevelString, ''exec''];
          execArgs1 = execArgs0 @ detachKeys;
          execArgs2 = execArgs1 @
            [''--interactive'', ''--tty'',
             ''--user'', currentUser_Username w,
             ''--workdir'', workingDirectory w];
          execArgs3 = execArgs2 @ envOptions;
          execArgs4 = execArgs3 @
            [container, ''capsh'', ''--caps='', ''--'', ''-c'', ''exec \"$@\"'', ''/bin/sh'']
      in execArgs4 @ command)"

subsection \<open>Lines 297 to 371: build the vector, run podman, classify\<close>

definition escapePush :: "world \<Rightarrow> string \<Rightarrow> string" where
  "escapePush w container =
     [CHR 0x1B] @ '']777;container;push;'' @ container @ '';toolbox;''
       @ currentUser_Uid w @ [CHR 0x1B, CHR 0x5C]"

definition escapePop :: "world \<Rightarrow> string" where
  "escapePop w = [CHR 0x1B] @ '']777;container;pop;;;'' @ currentUser_Uid w @ [CHR 0x1B, CHR 0x5C]"

definition runPodmanExec ::
  "world \<Rightarrow> string \<Rightarrow> string list \<Rightarrow> bool \<Rightarrow> outcome \<times> event list" where
  "runPodmanExec w container command emitEscapeSequence =
     (let args = execArgs w container command;
          res = runWithExitCode w ''podman'' args
      in prepend
           ([E_CheckVersion ''1.8.1'']
            @ (if emitEscapeSequence then [E_Stdout (escapePush w container)] else [])
            @ [E_RunWithExitCode ''podman'' args]
            @ (if emitEscapeSequence then [E_Stdout (escapePop w)] else []))
           (classifyExitCode w container command (fst res) (snd res)))"

subsection \<open>Lines 283 to 295: is the command there, else /bin/bash\<close>

definition enterInitialized ::
  "world \<Rightarrow> string \<Rightarrow> string list \<Rightarrow> bool \<Rightarrow> bool \<Rightarrow> outcome \<times> event list" where
  "enterInitialized w container command emitEscapeSequence fallbackToBash =
     (case command of
        [] \<Rightarrow> (Panic ''index out of range'', [])
      | c0 # _ \<Rightarrow>
          prepend [E_isCommandPresent container c0]
            (if \<not> isCommandPresent w container c0 then
               (if fallbackToBash then
                  prepend
                    [E_Stderr (''Error: command '' @ c0 @ '' not found in container ''
                                 @ container @ [CHR 0x0A]),
                     E_Stderr (''Using /bin/bash instead.'' @ [CHR 0x0A])]
                    (runPodmanExec w container [''/bin/bash'', ''-l''] emitEscapeSequence)
                else
                  (Return (Some (ErrorsNew
                     (''command '' @ c0 @ '' not found in container '' @ container))), []))
             else runPodmanExec w container command emitEscapeSequence))"

subsection \<open>Lines 272 to 279: the wait for the initialization stamp\<close>

definition initializedTimeout :: "64 word" where
  "initializedTimeout = 25"

text \<open>
  \<open>for i := 0; !utils.PathExists(initializedStamp); i++\<close>. The counter \<open>i\<close> is a Go
  \<open>int\<close> (64 bits), compared with \<open>==\<close>; \<open>t\<close> counts the seconds slept. The result
  is \<open>Some\<close> the error of the \<open>return\<close> inside the loop, or \<open>None\<close> when the loop
  ends because the stamp exists.
\<close>

function waitForStamp ::
  "world \<Rightarrow> string \<Rightarrow> string \<Rightarrow> 64 word \<Rightarrow> nat \<Rightarrow> err option \<times> event list" where
  "waitForStamp w container initializedStamp i t =
     (if pathExists w t initializedStamp then (None, [E_PathExists initializedStamp])
      else if i = initializedTimeout then
        (Some (ErrorsNew (''failed to initialize container '' @ container)),
         [E_PathExists initializedStamp])
      else
        prepend [E_PathExists initializedStamp, E_Sleep_Second]
          (waitForStamp w container initializedStamp (i + 1) (Suc t)))"
  by pat_completeness auto
termination
proof (relation "measure (\<lambda>(w, c, s, i, t). unat (initializedTimeout - i))")
  show "wf (measure (\<lambda>(w, c, s, i, t). unat (initializedTimeout - i)))"
    by simp
next
  fix w :: world and container initializedStamp :: string and i :: "64 word" and t :: nat
  assume "i \<noteq> initializedTimeout"
  then have nz: "initializedTimeout - i \<noteq> 0"
    by simp
  have eq: "initializedTimeout - (i + 1) = (initializedTimeout - i) - 1"
    by (simp add: algebra_simps)
  have "unat ((initializedTimeout - i) - 1) < unat (initializedTimeout - i)"
    using nz by (simp add: unat_minus_one unat_gt_0)
  then have "unat (initializedTimeout - (i + 1)) < unat (initializedTimeout - i)"
    unfolding eq .
  then show "((w, container, initializedStamp, i + 1, Suc t),
              (w, container, initializedStamp, i, t))
             \<in> measure (\<lambda>(w, c, s, i, t). unat (initializedTimeout - i))"
    by simp
qed

declare waitForStamp.simps [simp del]

subsection \<open>Lines 261 to 295\<close>

definition waitAndEnter ::
  "world \<Rightarrow> string \<Rightarrow> int \<Rightarrow> string list \<Rightarrow> bool \<Rightarrow> bool \<Rightarrow> outcome \<times> event list" where
  "waitAndEnter w container entryPointPID command emitEscapeSequence fallbackToBash =
     (case getRuntimeDirectory w of
        Inl e \<Rightarrow> (Return (Some e), [])
      | Inr toolboxRuntimeDirectory \<Rightarrow>
          (let initializedStamp =
                 toolboxRuntimeDirectory @ ''/container-initialized-'' @ fmt_d entryPointPID;
               waited = waitForStamp w container initializedStamp 0 0
           in case fst waited of
                Some e \<Rightarrow> (Return (Some e), snd waited)
              | None \<Rightarrow>
                  prepend (snd waited)
                    (enterInitialized w container command emitEscapeSequence fallbackToBash)))"

subsection \<open>Lines 234 to 259: start the container and look at its entry point\<close>

definition startAndEnter ::
  "world \<Rightarrow> string \<Rightarrow> string list \<Rightarrow> bool \<Rightarrow> bool \<Rightarrow> outcome \<times> event list" where
  "startAndEnter w container command emitEscapeSequence fallbackToBash =
     prepend [E_callFlatpakSessionHelper container]
       (case callFlatpakSessionHelper w container of
          Some e \<Rightarrow> (Return (Some e), [])
        | None \<Rightarrow>
            prepend [E_startContainer container]
              (case startContainer w container of
                 Some e \<Rightarrow> (Return (Some e), [])
               | None \<Rightarrow>
                   prepend [E_getEntryPointAndPID container]
                     (case getEntryPointAndPID w container of
                        Inl e \<Rightarrow> (Return (Some e), [])
                      | Inr (entryPoint, entryPointPID) \<Rightarrow>
                          if entryPoint \<noteq> ''toolbox'' then
                            (Return (Some (ErrorsNew
                               (''container '' @ container
                                  @ '' is too old and no longer supported '' @ [CHR 0x0A]
                                  @ ''Recreate it with Toolbox version 0.0.17 or newer.''
                                  @ [CHR 0x0A]))), [])
                          else if entryPointPID \<le> 0 then
                            (Return (Some (ErrorsNew
                               (''invalid entry point PID of container '' @ container))), [])
                          else
                            waitAndEnter w container entryPointPID command
                              emitEscapeSequence fallbackToBash)))"

subsection \<open>Lines 176 to 232: the container that is entered\<close>

text \<open>
  The block either returns from enterContainer (\<open>Inl\<close>) or falls through with the
  container to enter (\<open>Inr\<close>), which the substitution branch has changed.
  \<open>containers[0].Names[0]\<close> panics when the slice \<open>Names\<close> is empty.
\<close>

definition containerToEnter ::
  "world \<Rightarrow> string \<Rightarrow> bool \<Rightarrow> string \<Rightarrow> string \<Rightarrow> bool
     \<Rightarrow> (outcome + string) \<times> event list" where
  "containerToEnter w container defaultContainer image' release pedantic =
     prepend [E_ContainerExists container]
       (if \<not> containerExists w container then
          (if pedantic then
             (Inl (Return (Some
                (CreateErrorContainerNotFound container (executableBase w)))), [])
           else
             prepend [E_listContainers]
               (case listContainers w of
                  Inl _ \<Rightarrow>
                    (Inl (Return (Some
                       (CreateErrorContainerNotFound container (executableBase w)))), [])
                | Inr containers \<Rightarrow>
                    (let containersCount = length containers in
                     if containersCount = 0 then
                       (let prompt = ''No toolbox containers found. Create now? [y/N]'';
                            promptForCreate = \<not> rootFlags_assumeYes w;
                            shouldCreateContainer =
                              (if promptForCreate then askForConfirmation w prompt else True)
                        in prepend (if promptForCreate then [E_AskForConfirmation prompt] else [])
                             (if \<not> shouldCreateContainer then
                                (Inl (Return None),
                                 [E_Stdout (''A container can be created later with the ''
                                     @ [CHR 0x27] @ ''create' command.'' @ [CHR 0x0A]),
                                  E_Stdout (''Run '' @ [CHR 0x27] @ executableBase w
                                     @ '' --help' for usage.'' @ [CHR 0x0A])])
                              else
                                prepend [E_createContainer container image' release False]
                                  (case createContainer w container image' release False of
                                     Some e \<Rightarrow> (Inl (Return (Some e)), [])
                                   | None \<Rightarrow> (Inr container, []))))
                     else if containersCount = 1 \<and> defaultContainer then
                       prepend
                         [E_Stderr (''Error: container '' @ container @ '' not found''
                                      @ [CHR 0x0A])]
                         (case Names (containers ! 0) of
                            [] \<Rightarrow> (Inl (Panic ''index out of range''), [])
                          | name # _ \<Rightarrow>
                              (Inr name,
                               [E_Stderr (''Entering container '' @ name @ '' instead.''
                                            @ [CHR 0x0A]),
                                E_Stderr (''Use the 'create' command to create a different ''
                                            @ ''toolbox.'' @ [CHR 0x0A]),
                                E_Stderr (''Run '' @ [CHR 0x27] @ executableBase w
                                            @ '' --help' for usage.'' @ [CHR 0x0A])]))
                     else
                       (Inl (Return (Some (ErrorsNew
                          (''container '' @ container @ '' not found'' @ [CHR 0x0A]
                             @ ''Use the '--container' option to select a toolbox.''
                             @ [CHR 0x0A]
                             @ ''Run '' @ [CHR 0x27] @ executableBase w
                             @ '' --help' for usage.'')))),
                        []))))
        else (Inr container, []))"

subsection \<open>enterContainer\<close>

definition enterContainer ::
  "world \<Rightarrow> string \<Rightarrow> bool \<Rightarrow> string \<Rightarrow> string \<Rightarrow> string list \<Rightarrow> bool \<Rightarrow> bool \<Rightarrow> bool
     \<Rightarrow> outcome \<times> event list" where
  "enterContainer w container defaultContainer image' release command
       emitEscapeSequence fallbackToBash pedantic =
     (if \<not> pedantic \<and> image' = [] then (Panic ''image not specified'', [])
      else if \<not> pedantic \<and> release = [] then (Panic ''release not specified'', [])
      else
        (let found = containerToEnter w container defaultContainer image' release pedantic
         in case fst found of
              Inl r \<Rightarrow> (r, snd found)
            | Inr container' \<Rightarrow>
                prepend (snd found)
                  (startAndEnter w container' command emitEscapeSequence fallbackToBash)))"

section \<open>enter\<close>

text \<open>
  \<open>args\<close> are the positional arguments; the options \<open>--container\<close> and \<open>--release\<close>
  are the fields \<open>enterFlags_container\<close> and \<open>enterFlags_release\<close> of the world, the
  empty string when the option is not given. \<open>supplied\<close> is the local variable
  \<open>container\<close> before it is resolved, and \<open>containerArg\<close> names where it came from.
\<close>

definition supplied :: "world \<Rightarrow> string list \<Rightarrow> string" where
  "supplied w args =
     (case args of
        a # _ \<Rightarrow> a
      | [] \<Rightarrow> (if enterFlags_container w \<noteq> [] then enterFlags_container w else []))"

definition containerArg :: "world \<Rightarrow> string list \<Rightarrow> string" where
  "containerArg w args =
     (case args of
        _ # _ \<Rightarrow> ''CONTAINER''
      | [] \<Rightarrow> (if enterFlags_container w \<noteq> [] then ''--container'' else []))"

definition enter :: "world \<Rightarrow> string list \<Rightarrow> outcome \<times> event list" where
  "enter w args =
     (if isInsideContainer w then
        (if \<not> isInsideToolboxContainer w then
           (Return (Some (ErrorsNew ''this is not a toolbox container'')), [])
         else
           prepend [E_ForwardToHost]
             (case forwardToHost w of
                Some e \<Rightarrow> (Return (Some e), [])
              | None \<Rightarrow> (Return None, [])))
      else
        (let container = supplied w args in
         if container \<noteq> [] \<and> \<not> isContainerNameValid w container then
           (Return (Some (ErrorsNew
              (''invalid argument for '' @ [CHR 0x27] @ containerArg w args @ [CHR 0x27, CHR 0x0A]
               @ ''Container names must match '' @ [CHR 0x27] @ containerNameRegexp w
               @ [CHR 0x27, CHR 0x0A]
               @ ''Run '' @ [CHR 0x27] @ executableBase w @ '' --help' for usage.''))), [])
         else
           (case (if enterFlags_release w \<noteq> [] then parseRelease w (enterFlags_release w)
                  else Some []) of
              None \<Rightarrow> (Return (Some (CreateErrorInvalidRelease (executableBase w))), [])
            | Some release \<Rightarrow>
                (let nonDefaultContainer = (container \<noteq> [] \<or> enterFlags_release w \<noteq> []) in
                 case resolveContainerAndImageNames w container [] release of
                   Inl e \<Rightarrow> (Return (Some e), [])
                 | Inr (container', image', release') \<Rightarrow>
                     (let userShell = getenv w ''SHELL'' in
                      if userShell = [] then
                        (Return (Some (ErrorsNew
                           ''failed to get the current user's default shell'')), [])
                      else
                        (let command = [userShell, ''-l''] in
                         case getHostID w of
                           None \<Rightarrow>
                             (Return (Some (ErrorsNew ''failed to get the host ID'')), [])
                         | Some hostID \<Rightarrow>
                             (case getHostVariantID w of
                                None \<Rightarrow>
                                  (Return (Some (ErrorsNew
                                     ''failed to get the host VARIANT_ID'')), [])
                              | Some hostVariantID \<Rightarrow>
                                  (let emitEscapeSequence =
                                         (hostID = ''fedora''
                                          \<and> (hostVariantID = ''silverblue''
                                               \<or> hostVariantID = ''workstation''))
                                   in enterContainer w container' (\<not> nonDefaultContainer)
                                        image' release' command emitEscapeSequence
                                        True False))))))))"


section \<open>Predicates on actions\<close>

definition is_createContainer :: "event \<Rightarrow> bool" where
  "is_createContainer ev = (case ev of E_createContainer _ _ _ _ \<Rightarrow> True | _ \<Rightarrow> False)"

definition is_AskForConfirmation :: "event \<Rightarrow> bool" where
  "is_AskForConfirmation ev = (case ev of E_AskForConfirmation _ \<Rightarrow> True | _ \<Rightarrow> False)"

definition is_PathExists :: "event \<Rightarrow> bool" where
  "is_PathExists ev = (case ev of E_PathExists _ \<Rightarrow> True | _ \<Rightarrow> False)"

section \<open>A concrete host\<close>

text \<open>
  A Fedora Workstation host on which the default container \<open>fedora-toolbox-33\<close> exists,
  its entry point has PID 4242 and writes the stamp two seconds after the start, the
  login shell \<open>/bin/zsh\<close> is missing in the container and \<open>podman exec\<close> ends with
  exit code 0. The examples below change single fields of it.
\<close>

definition hostWorld :: world where
  "hostWorld =
     \<lparr> isInsideContainer = False,
       isInsideToolboxContainer = False,
       forwardToHost = None,
       isContainerNameValid = (\<lambda>name. name \<noteq> [] \<and> CHR '' '' \<notin> set name),
       containerNameRegexp = ''^[a-zA-Z0-9][a-zA-Z0-9_.-]*$'',
       executableBase = ''toolbox'',
       enterFlags_container = [],
       enterFlags_release = [],
       rootFlags_assumeYes = False,
       parseRelease = (\<lambda>r. Some r),
       resolveContainerAndImageNames =
         (\<lambda>c i r. Inr (if c = [] then ''fedora-toolbox-33'' else c,
                        ''registry.fedoraproject.org/f33/fedora-toolbox:33'',
                        if r = [] then ''33'' else r)),
       getenv = (\<lambda>v. if v = ''SHELL'' then ''/bin/zsh'' else []),
       getHostID = Some ''fedora'',
       getHostVariantID = Some ''workstation'',
       containerExists = (\<lambda>c. c = ''fedora-toolbox-33''),
       listContainers = Inr [\<lparr> Names = [''fedora-toolbox-33''] \<rparr>],
       askForConfirmation = (\<lambda>_. False),
       createContainer = (\<lambda>_ _ _ _. None),
       callFlatpakSessionHelper = (\<lambda>_. None),
       startContainer = (\<lambda>_. None),
       getEntryPointAndPID = (\<lambda>_. Inr (''toolbox'', 4242)),
       getRuntimeDirectory = Inr ''/run/user/1000/toolbox'',
       pathExists =
         (\<lambda>t p. p = ''/run/user/1000/toolbox/container-initialized-4242'' \<and> 2 \<le> t),
       isCommandPresent = (\<lambda>_ c. c = ''/bin/bash''),
       checkVersion = (\<lambda>_. True),
       getEnvOptionsForPreservedVariables = [''--env'', ''TERM=xterm''],
       logLevel = ''error'',
       currentUser_Username = ''alice'',
       currentUser_Uid = ''1000'',
       workingDirectory = ''/home/alice'',
       runWithExitCode = (\<lambda>_ _. (0, None)),
       isPathPresent = (\<lambda>_ _. True) \<rparr>"

text \<open>The arguments of \<open>podman\<close> on that host, after the fallback to \<open>/bin/bash\<close>.\<close>

definition hostArgs :: "string list" where
  "hostArgs =
     [''--log-level'', ''error'', ''exec'', ''--detach-keys'', [], ''--interactive'', ''--tty'',
      ''--user'', ''alice'', ''--workdir'', ''/home/alice'', ''--env'', ''TERM=xterm'',
      ''fedora-toolbox-33'', ''capsh'', ''--caps='', ''--'', ''-c'', ''exec \"$@\"'', ''/bin/sh'',
      ''/bin/bash'', ''-l'']"

section \<open>Auxiliary facts\<close>

lemma hostWorld_sel:
  "isInsideContainer hostWorld = False"
  "isInsideToolboxContainer hostWorld = False"
  "forwardToHost hostWorld = None"
  "isContainerNameValid hostWorld = (\<lambda>name. name \<noteq> [] \<and> CHR '' '' \<notin> set name)"
  "containerNameRegexp hostWorld = ''^[a-zA-Z0-9][a-zA-Z0-9_.-]*$''"
  "executableBase hostWorld = ''toolbox''"
  "enterFlags_container hostWorld = []"
  "enterFlags_release hostWorld = []"
  "rootFlags_assumeYes hostWorld = False"
  "parseRelease hostWorld = (\<lambda>r. Some r)"
  "resolveContainerAndImageNames hostWorld =
     (\<lambda>c i r. Inr (if c = [] then ''fedora-toolbox-33'' else c,
                    ''registry.fedoraproject.org/f33/fedora-toolbox:33'',
                    if r = [] then ''33'' else r))"
  "getenv hostWorld = (\<lambda>v. if v = ''SHELL'' then ''/bin/zsh'' else [])"
  "getHostID hostWorld = Some ''fedora''"
  "getHostVariantID hostWorld = Some ''workstation''"
  "containerExists hostWorld = (\<lambda>c. c = ''fedora-toolbox-33'')"
  "listContainers hostWorld = Inr [\<lparr> Names = [''fedora-toolbox-33''] \<rparr>]"
  "askForConfirmation hostWorld = (\<lambda>_. False)"
  "createContainer hostWorld = (\<lambda>_ _ _ _. None)"
  "callFlatpakSessionHelper hostWorld = (\<lambda>_. None)"
  "startContainer hostWorld = (\<lambda>_. None)"
  "getEntryPointAndPID hostWorld = (\<lambda>_. Inr (''toolbox'', 4242))"
  "getRuntimeDirectory hostWorld = Inr ''/run/user/1000/toolbox''"
  "pathExists hostWorld =
     (\<lambda>t p. p = ''/run/user/1000/toolbox/container-initialized-4242'' \<and> 2 \<le> t)"
  "isCommandPresent hostWorld = (\<lambda>_ c. c = ''/bin/bash'')"
  "checkVersion hostWorld = (\<lambda>_. True)"
  "getEnvOptionsForPreservedVariables hostWorld = [''--env'', ''TERM=xterm'']"
  "logLevel hostWorld = ''error''"
  "currentUser_Username hostWorld = ''alice''"
  "currentUser_Uid hostWorld = ''1000''"
  "workingDirectory hostWorld = ''/home/alice''"
  "runWithExitCode hostWorld = (\<lambda>_ _. (0, None))"
  "isPathPresent hostWorld = (\<lambda>_ _. True)"
  by (simp_all add: hostWorld_def)

lemmas run_defs =
  enterContainer_def containerToEnter_def startAndEnter_def waitAndEnter_def
  enterInitialized_def runPodmanExec_def execArgs_def classifyExitCode_def
  escapePush_def escapePop_def prepend_def fmt_d_def initializedTimeout_def Let_def
  waitForStamp.simps decimal.simps hostWorld_sel

lemma fst_prepend [simp]: "fst (prepend evs r) = fst r"
  by (simp add: prepend_def)

lemma snd_prepend [simp]: "snd (prepend evs r) = evs @ snd r"
  by (simp add: prepend_def)

lemma prepend_prepend: "prepend xs (prepend ys r) = prepend (xs @ ys) r"
  by (simp add: prepend_def)

subsection \<open>Which actions a part of the run can perform\<close>

lemma classifyExitCode_events:
  "set (snd (classifyExitCode w c cmd code e)) \<subseteq> {E_isPathPresent c (workingDirectory w)}"
  by (simp add: classifyExitCode_def split: option.split list.split)

lemma waitForStamp_events:
  "set (snd (waitForStamp w c s i t)) \<subseteq> {E_PathExists s, E_Sleep_Second}"
proof (induction w c s i t rule: waitForStamp.induct)
  case (1 w container initializedStamp i t)
  show ?case
  proof (cases "pathExists w t initializedStamp \<or> i = initializedTimeout")
    case True
    then show ?thesis
      by (auto simp: waitForStamp.simps [of w container initializedStamp i t])
  next
    case False
    with 1 show ?thesis
      by (simp add: waitForStamp.simps [of w container initializedStamp i t])
  qed
qed

lemma containerToEnter_events:
  "E_RunWithExitCode p args \<notin> set (snd (containerToEnter w container dc image' release ped))"
  "E_PathExists s \<notin> set (snd (containerToEnter w container dc image' release ped))"
  "E_Sleep_Second \<notin> set (snd (containerToEnter w container dc image' release ped))"
  by (auto simp: containerToEnter_def Let_def
           split: sum.splits list.splits option.splits if_splits)

lemma classifyExitCode_quiet:
  assumes "ev \<in> set (snd (classifyExitCode w c cmd code e))"
  shows "ev = E_isPathPresent c (workingDirectory w)"
  using assms classifyExitCode_events [of w c cmd code e] by blast

lemma runPodmanExec_quiet:
  assumes "ev \<in> set (snd (runPodmanExec w c cmd emit))"
  shows "\<not> is_createContainer ev \<and> \<not> is_AskForConfirmation ev"
  using assms
  by (auto simp: runPodmanExec_def Let_def is_createContainer_def is_AskForConfirmation_def
           dest: classifyExitCode_quiet)

lemma enterInitialized_quiet:
  assumes "ev \<in> set (snd (enterInitialized w c command emit fb))"
  shows "\<not> is_createContainer ev \<and> \<not> is_AskForConfirmation ev"
  using assms
  by (auto simp: enterInitialized_def is_createContainer_def is_AskForConfirmation_def
           split: list.splits if_splits dest: runPodmanExec_quiet)

lemma waitForStamp_quiet:
  assumes "ev \<in> set (snd (waitForStamp w c s i t))"
  shows "\<not> is_createContainer ev \<and> \<not> is_AskForConfirmation ev"
  using assms waitForStamp_events [of w c s i t]
  by (auto simp: is_createContainer_def is_AskForConfirmation_def)

lemma waitAndEnter_quiet:
  assumes "ev \<in> set (snd (waitAndEnter w c pid command emit fb))"
  shows "\<not> is_createContainer ev \<and> \<not> is_AskForConfirmation ev"
  using assms
  by (auto simp: waitAndEnter_def Let_def split: sum.splits option.splits
           dest: waitForStamp_quiet enterInitialized_quiet)

lemma startAndEnter_quiet:
  assumes "ev \<in> set (snd (startAndEnter w c command emit fb))"
  shows "\<not> is_createContainer ev \<and> \<not> is_AskForConfirmation ev"
  using assms
  by (auto simp: startAndEnter_def is_createContainer_def is_AskForConfirmation_def
           split: option.splits sum.splits prod.splits if_splits dest: waitAndEnter_quiet)

lemma startAndEnter_filters:
  "filter is_createContainer (snd (startAndEnter w c command emit fb)) = []"
  "filter is_AskForConfirmation (snd (startAndEnter w c command emit fb)) = []"
  using startAndEnter_quiet [of _ w c command emit fb]
  by (auto simp: filter_empty_conv)


lemma prepend_trans:
  assumes "r = prepend xs s" and "\<exists>pre. s = prepend pre t"
  shows "\<exists>pre. r = prepend pre t"
  using assms by (auto simp: prepend_prepend)

lemma runPodmanExec_reach:
  assumes "E_RunWithExitCode p args \<in> set (snd (runPodmanExec w c cmd emit))"
  shows "p = ''podman'' \<and> args = execArgs w c cmd
         \<and> (\<exists>pre. runPodmanExec w c cmd emit =
               prepend pre (classifyExitCode w c cmd (fst (runWithExitCode w p args))
                              (snd (runWithExitCode w p args))))"
proof -
  from assms have pa: "p = ''podman'' \<and> args = execArgs w c cmd"
    by (auto simp: runPodmanExec_def Let_def dest: classifyExitCode_quiet)
  then show ?thesis
    unfolding runPodmanExec_def Let_def by blast
qed

lemma enterInitialized_present:
  assumes "isCommandPresent w c c0"
  shows "enterInitialized w c (c0 # cs) emit fb =
           prepend [E_isCommandPresent c c0] (runPodmanExec w c (c0 # cs) emit)"
  using assms by (simp add: enterInitialized_def)

lemma enterInitialized_fallback:
  assumes "\<not> isCommandPresent w c c0" and fb
  shows "enterInitialized w c (c0 # cs) emit fb =
           prepend
             [E_isCommandPresent c c0,
              E_Stderr (''Error: command '' @ c0 @ '' not found in container '' @ c @ [CHR 0x0A]),
              E_Stderr (''Using /bin/bash instead.'' @ [CHR 0x0A])]
             (runPodmanExec w c [''/bin/bash'', ''-l''] emit)"
  using assms by (simp add: enterInitialized_def prepend_def)

lemma enterInitialized_absent:
  assumes "\<not> isCommandPresent w c c0" and "\<not> fb"
  shows "snd (enterInitialized w c (c0 # cs) emit fb) = [E_isCommandPresent c c0]"
  using assms by (simp add: enterInitialized_def)


lemma enterInitialized_reach:
  assumes run: "E_RunWithExitCode p args \<in> set (snd (enterInitialized w c (c0 # cs) emit fb))"
    and cmd: "cmd = (if isCommandPresent w c c0 then c0 # cs else [''/bin/bash'', ''-l''])"
  shows "p = ''podman'' \<and> args = execArgs w c cmd
         \<and> (\<exists>pre. enterInitialized w c (c0 # cs) emit fb =
               prepend pre (classifyExitCode w c cmd (fst (runWithExitCode w p args))
                              (snd (runWithExitCode w p args))))"
proof -
  have "\<exists>xs. enterInitialized w c (c0 # cs) emit fb = prepend xs (runPodmanExec w c cmd emit)
          \<and> E_RunWithExitCode p args \<notin> set xs"
  proof (cases "isCommandPresent w c c0")
    case True
    from enterInitialized_present [OF True, of cs emit fb] True cmd show ?thesis
      by auto
  next
    case False
    have fb: fb
    proof (rule ccontr)
      assume "\<not> fb"
      from enterInitialized_absent [OF False this, of cs emit] run show False
        by simp
    qed
    from enterInitialized_fallback [OF False fb, of cs emit] False cmd show ?thesis
      by auto
  qed
  then obtain xs where
    e: "enterInitialized w c (c0 # cs) emit fb = prepend xs (runPodmanExec w c cmd emit)"
    and xs: "E_RunWithExitCode p args \<notin> set xs"
    by blast
  from run e xs have "E_RunWithExitCode p args \<in> set (snd (runPodmanExec w c cmd emit))"
    by simp
  from runPodmanExec_reach [OF this] prepend_trans [OF e] show ?thesis
    by blast
qed

lemma waitAndEnter_reach:
  assumes "E_RunWithExitCode p args \<in> set (snd (waitAndEnter w c pid command emit fb))"
  shows "E_RunWithExitCode p args \<in> set (snd (enterInitialized w c command emit fb))
         \<and> (\<exists>pre. waitAndEnter w c pid command emit fb =
               prepend pre (enterInitialized w c command emit fb))"
proof (cases "getRuntimeDirectory w")
  case (Inl e)
  with assms show ?thesis by (simp add: waitAndEnter_def)
next
  case (Inr dir)
  let ?s = "dir @ ''/container-initialized-'' @ fmt_d pid"
  have nw: "E_RunWithExitCode p args \<notin> set (snd (waitForStamp w c ?s 0 0))"
    using waitForStamp_events [of w c ?s 0 0] by auto
  show ?thesis
  proof (cases "fst (waitForStamp w c ?s 0 0)")
    case None
    with Inr have "waitAndEnter w c pid command emit fb =
        prepend (snd (waitForStamp w c ?s 0 0)) (enterInitialized w c command emit fb)"
      by (simp add: waitAndEnter_def Let_def)
    with assms nw show ?thesis by auto
  next
    case (Some e)
    with Inr have "snd (waitAndEnter w c pid command emit fb) = snd (waitForStamp w c ?s 0 0)"
      by (simp add: waitAndEnter_def Let_def)
    with assms nw show ?thesis by simp
  qed
qed


lemma startAndEnter_cases:
  "(\<exists>pid. startAndEnter w c command emit fb =
       prepend [E_callFlatpakSessionHelper c, E_startContainer c, E_getEntryPointAndPID c]
         (waitAndEnter w c pid command emit fb))
   \<or> set (snd (startAndEnter w c command emit fb))
       \<subseteq> {E_callFlatpakSessionHelper c, E_startContainer c, E_getEntryPointAndPID c}"
proof (cases "callFlatpakSessionHelper w c")
  case (Some e)
  then show ?thesis by (simp add: startAndEnter_def)
next
  case None
  note flatpak = this
  show ?thesis
  proof (cases "startContainer w c")
    case (Some e)
    with flatpak show ?thesis by (simp add: startAndEnter_def)
  next
    case None
    note start = this
    show ?thesis
    proof (cases "getEntryPointAndPID w c")
      case (Inl e)
      with flatpak start show ?thesis by (simp add: startAndEnter_def)
    next
      case (Inr ep)
      obtain entryPoint pid where ep: "ep = (entryPoint, pid)" by (cases ep)
      show ?thesis
      proof (cases "entryPoint = ''toolbox'' \<and> 0 < pid")
        case True
        with flatpak start Inr ep have "startAndEnter w c command emit fb =
            prepend [E_callFlatpakSessionHelper c, E_startContainer c, E_getEntryPointAndPID c]
              (waitAndEnter w c pid command emit fb)"
          by (simp add: startAndEnter_def prepend_def)
        then show ?thesis by blast
      next
        case False
        with flatpak start Inr ep
        have "snd (startAndEnter w c command emit fb) =
            [E_callFlatpakSessionHelper c, E_startContainer c, E_getEntryPointAndPID c]"
          by (auto simp: startAndEnter_def)
        then show ?thesis by simp
      qed
    qed
  qed
qed

lemma startAndEnter_reach:
  assumes "E_RunWithExitCode p args \<in> set (snd (startAndEnter w c command emit fb))"
  shows "E_RunWithExitCode p args \<in> set (snd (enterInitialized w c command emit fb))
         \<and> (\<exists>pre. startAndEnter w c command emit fb =
               prepend pre (enterInitialized w c command emit fb))"
proof -
  from startAndEnter_cases [of w c command emit fb] assms obtain pid where
    s: "startAndEnter w c command emit fb =
       prepend [E_callFlatpakSessionHelper c, E_startContainer c, E_getEntryPointAndPID c]
         (waitAndEnter w c pid command emit fb)"
    by auto
  with assms have
    "E_RunWithExitCode p args \<in> set (snd (waitAndEnter w c pid command emit fb))"
    by simp
  from waitAndEnter_reach [OF this] prepend_trans [OF s] show ?thesis
    by blast
qed

lemma enterContainer_cases:
  "(\<exists>c. fst (containerToEnter w container dc image' release ped) = Inr c
        \<and> enterContainer w container dc image' release command emit fb ped =
            prepend (snd (containerToEnter w container dc image' release ped))
              (startAndEnter w c command emit fb))
   \<or> snd (enterContainer w container dc image' release command emit fb ped) = []
   \<or> snd (enterContainer w container dc image' release command emit fb ped) =
       snd (containerToEnter w container dc image' release ped)"
proof (cases "\<not> ped \<and> (image' = [] \<or> release = [])")
  case True
  then have "snd (enterContainer w container dc image' release command emit fb ped) = []"
    by (auto simp: enterContainer_def)
  then show ?thesis by simp
next
  case False
  then have unfolded: "enterContainer w container dc image' release command emit fb ped =
      (case fst (containerToEnter w container dc image' release ped) of
         Inl r \<Rightarrow> (r, snd (containerToEnter w container dc image' release ped))
       | Inr c \<Rightarrow>
           prepend (snd (containerToEnter w container dc image' release ped))
             (startAndEnter w c command emit fb))"
    by (auto simp: enterContainer_def Let_def split: sum.split)
  show ?thesis
  proof (cases "fst (containerToEnter w container dc image' release ped)")
    case (Inl r)
    then show ?thesis unfolding unfolded by simp
  next
    case (Inr c)
    then show ?thesis unfolding unfolded by simp
  qed
qed

lemma enterContainer_reach:
  assumes "E_RunWithExitCode p args \<in>
             set (snd (enterContainer w container dc image' release command emit fb ped))"
  shows "\<exists>c. fst (containerToEnter w container dc image' release ped) = Inr c
           \<and> E_RunWithExitCode p args \<in> set (snd (enterInitialized w c command emit fb))
           \<and> (\<exists>pre. enterContainer w container dc image' release command emit fb ped =
                 prepend pre (enterInitialized w c command emit fb))"
proof -
  from enterContainer_cases [of w container dc image' release ped command emit fb] assms
    containerToEnter_events(1) [of p args w container dc image' release ped]
  obtain c where
    sel: "fst (containerToEnter w container dc image' release ped) = Inr c"
    and e: "enterContainer w container dc image' release command emit fb ped =
       prepend (snd (containerToEnter w container dc image' release ped))
         (startAndEnter w c command emit fb)"
    by auto
  with assms containerToEnter_events(1) [of p args w container dc image' release ped]
  have "E_RunWithExitCode p args \<in> set (snd (startAndEnter w c command emit fb))"
    by simp
  from startAndEnter_reach [OF this] prepend_trans [OF e] sel show ?thesis
    by blast
qed

lemma exec_outcome:
  assumes run: "E_RunWithExitCode p args \<in>
             set (snd (enterContainer w container dc image' release (c0 # cs) emit fb ped))"
    and sel: "fst (containerToEnter w container dc image' release ped) = Inr c"
    and cmd: "cmd = (if isCommandPresent w c c0 then c0 # cs else [''/bin/bash'', ''-l''])"
  shows "p = ''podman'' \<and> args = execArgs w c cmd
         \<and> (\<exists>pre. enterContainer w container dc image' release (c0 # cs) emit fb ped =
               prepend pre (classifyExitCode w c cmd (fst (runWithExitCode w p args))
                              (snd (runWithExitCode w p args))))"
proof -
  from enterContainer_reach [OF run] sel obtain pre where
    i: "E_RunWithExitCode p args \<in> set (snd (enterInitialized w c (c0 # cs) emit fb))"
    and e: "enterContainer w container dc image' release (c0 # cs) emit fb ped =
              prepend pre (enterInitialized w c (c0 # cs) emit fb)"
    by auto
  from enterInitialized_reach [OF i cmd] prepend_trans [OF e] show ?thesis
    by blast
qed

lemma exec_reached:
  assumes "E_RunWithExitCode p args \<in>
             set (snd (enterContainer w container dc image' release command emit fb ped))"
  shows "\<exists>c c0 cs. fst (containerToEnter w container dc image' release ped) = Inr c
           \<and> command = c0 # cs"
proof -
  from enterContainer_reach [OF assms] obtain c where
    sel: "fst (containerToEnter w container dc image' release ped) = Inr c"
    and i: "E_RunWithExitCode p args \<in> set (snd (enterInitialized w c command emit fb))"
    by blast
  from i have "command \<noteq> []"
    by (auto simp: enterInitialized_def)
  with sel show ?thesis
    by (cases command) auto
qed


subsection \<open>The wait loop\<close>

lemma unat_succ_small:
  fixes i :: "64 word"
  assumes "unat i < 25"
  shows "unat (i + 1) = Suc (unat i)" and "i \<noteq> initializedTimeout"
proof -
  have "unat i + unat (1 :: 64 word) < 2 ^ LENGTH(64)"
    using assms by simp
  then have "unat (i + 1) = unat i + unat (1 :: 64 word)"
    by (simp only: unat_add_lem [THEN iffD1])
  then show "unat (i + 1) = Suc (unat i)" by simp
  show "i \<noteq> initializedTimeout"
    using assms by (auto simp: initializedTimeout_def)
qed

lemma waitForStamp_found:
  assumes "unat i + k \<le> 25"
    and "\<forall>j<k. \<not> pathExists w (t + j) s"
    and "pathExists w (t + k) s"
  shows "waitForStamp w c s i t =
           (None, concat (replicate k [E_PathExists s, E_Sleep_Second]) @ [E_PathExists s])"
  using assms
proof (induction k arbitrary: i t)
  case 0
  then show ?case by (simp add: waitForStamp.simps [of w c s i t])
next
  case (Suc k)
  from Suc.prems(2) have absent: "\<not> pathExists w t s"
    by (metis add.right_neutral zero_less_Suc)
  from Suc.prems(1) have small: "unat i < 25" by simp
  have step: "waitForStamp w c s i t =
      prepend [E_PathExists s, E_Sleep_Second] (waitForStamp w c s (i + 1) (Suc t))"
    using absent unat_succ_small(2) [OF small]
    by (simp add: waitForStamp.simps [of w c s i t])
  have "waitForStamp w c s (i + 1) (Suc t) =
      (None, concat (replicate k [E_PathExists s, E_Sleep_Second]) @ [E_PathExists s])"
  proof (rule Suc.IH)
    show "unat (i + 1) + k \<le> 25"
      using Suc.prems(1) unat_succ_small(1) [OF small] by simp
    show "\<forall>j<k. \<not> pathExists w (Suc t + j) s"
      using Suc.prems(2) by (metis Suc_less_eq add_Suc_shift)
    show "pathExists w (Suc t + k) s"
      using Suc.prems(3) by simp
  qed
  with step show ?case by (simp add: prepend_def)
qed

lemma waitForStamp_timeout:
  assumes "unat i + n = 25"
    and "\<forall>j\<le>n. \<not> pathExists w (t + j) s"
  shows "waitForStamp w c s i t =
           (Some (ErrorsNew (''failed to initialize container '' @ c)),
            concat (replicate n [E_PathExists s, E_Sleep_Second]) @ [E_PathExists s])"
  using assms
proof (induction n arbitrary: i t)
  case 0
  then have "unat i = unat (25 :: 64 word)" by simp
  then have "i = initializedTimeout"
    unfolding initializedTimeout_def by (simp only: word_unat_eq_iff)
  moreover from 0 have "\<not> pathExists w t s" by simp
  ultimately show ?case
    using 0 by (simp add: waitForStamp.simps [of w c s initializedTimeout t])
next
  case (Suc n)
  from Suc.prems(2) have absent: "\<not> pathExists w t s"
    by (metis add.right_neutral le0)
  from Suc.prems(1) have small: "unat i < 25" by simp
  have step: "waitForStamp w c s i t =
      prepend [E_PathExists s, E_Sleep_Second] (waitForStamp w c s (i + 1) (Suc t))"
    using absent unat_succ_small(2) [OF small]
    by (simp add: waitForStamp.simps [of w c s i t])
  have "waitForStamp w c s (i + 1) (Suc t) =
      (Some (ErrorsNew (''failed to initialize container '' @ c)),
       concat (replicate n [E_PathExists s, E_Sleep_Second]) @ [E_PathExists s])"
  proof (rule Suc.IH)
    show "unat (i + 1) + n = 25"
      using Suc.prems(1) unat_succ_small(1) [OF small] by simp
    show "\<forall>j\<le>n. \<not> pathExists w (Suc t + j) s"
      using Suc.prems(2) by (metis Suc_le_mono add_Suc_shift)
  qed
  with step show ?case by (simp add: prepend_def)
qed

lemma enterContainer_validated:
  assumes "ped \<or> (image' \<noteq> [] \<and> release \<noteq> [])"
    and "fst (containerToEnter w container dc image' release ped) = Inr c"
    and "callFlatpakSessionHelper w c = None"
    and "startContainer w c = None"
    and "getEntryPointAndPID w c = Inr (''toolbox'', pid)"
    and "0 < pid"
  shows "enterContainer w container dc image' release command emit fb ped =
           prepend (snd (containerToEnter w container dc image' release ped)
                    @ [E_callFlatpakSessionHelper c, E_startContainer c, E_getEntryPointAndPID c])
             (waitAndEnter w c pid command emit fb)"
  using assms by (auto simp: enterContainer_def startAndEnter_def prepend_def Let_def)


section \<open>A missing container: substitution, creation, failure\<close>

text \<open>
  C1. Permissive mode, the requested container is missing and the containers can be
  listed. With exactly one container (whose first name is \<open>name\<close>) and a default
  request, enterContainer tells the user on standard error and goes on with \<open>name\<close>:
  the rest of the run is that of \<open>startAndEnter\<close> for \<open>name\<close>. With exactly one
  container and a request that is not the default one, or with two or more containers,
  it returns the error "container ... not found" after the two look-ups and does nothing
  else. \<open>enter\<close> passes a default request exactly when neither a container name nor a
  release was given.
\<close>

theorem C1_single_container_fallback:
  assumes "image' \<noteq> []" and "release \<noteq> []"
    and "\<not> containerExists w container"
    and "listContainers w = Inr containers"
  shows
    "(dc \<and> containers = [ctr] \<and> Names ctr = name # aliases \<longrightarrow>
        enterContainer w container dc image' release command emit fb False =
          prepend
            [E_ContainerExists container, E_listContainers,
             E_Stderr (''Error: container '' @ container @ '' not found'' @ [CHR 0x0A]),
             E_Stderr (''Entering container '' @ name @ '' instead.'' @ [CHR 0x0A]),
             E_Stderr (''Use the 'create' command to create a different toolbox.''
                         @ [CHR 0x0A]),
             E_Stderr (''Run '' @ [CHR 0x27] @ executableBase w @ '' --help' for usage.''
                         @ [CHR 0x0A])]
            (startAndEnter w name command emit fb))
     \<and> ((length containers = 1 \<and> \<not> dc) \<or> 2 \<le> length containers \<longrightarrow>
        enterContainer w container dc image' release command emit fb False =
          (Return (Some (ErrorsNew
             (''container '' @ container @ '' not found'' @ [CHR 0x0A]
                @ ''Use the '--container' option to select a toolbox.'' @ [CHR 0x0A]
                @ ''Run '' @ [CHR 0x27] @ executableBase w @ '' --help' for usage.''))),
           [E_ContainerExists container, E_listContainers]))
     \<and> (\<not> isInsideContainer w'
          \<and> (supplied w' args = [] \<or> isContainerNameValid w' (supplied w' args))
          \<and> (if enterFlags_release w' = [] then Some []
               else parseRelease w' (enterFlags_release w')) = Some rel
          \<and> resolveContainerAndImageNames w' (supplied w' args) [] rel = Inr (c, img, rel')
          \<and> getenv w' ''SHELL'' \<noteq> []
          \<and> getHostID w' = Some hostID \<and> getHostVariantID w' = Some hostVariantID \<longrightarrow>
        enter w' args =
          enterContainer w' c (supplied w' args = [] \<and> enterFlags_release w' = []) img rel'
            [getenv w' ''SHELL'', ''-l'']
            (hostID = ''fedora''
             \<and> (hostVariantID = ''silverblue'' \<or> hostVariantID = ''workstation''))
            True False)"
proof (intro conjI impI)
  assume "dc \<and> containers = [ctr] \<and> Names ctr = name # aliases"
  with assms show "enterContainer w container dc image' release command emit fb False =
          prepend
            [E_ContainerExists container, E_listContainers,
             E_Stderr (''Error: container '' @ container @ '' not found'' @ [CHR 0x0A]),
             E_Stderr (''Entering container '' @ name @ '' instead.'' @ [CHR 0x0A]),
             E_Stderr (''Use the 'create' command to create a different toolbox.''
                         @ [CHR 0x0A]),
             E_Stderr (''Run '' @ [CHR 0x27] @ executableBase w @ '' --help' for usage.''
                         @ [CHR 0x0A])]
            (startAndEnter w name command emit fb)"
    by (simp add: enterContainer_def containerToEnter_def Let_def prepend_def)
next
  assume "(length containers = 1 \<and> \<not> dc) \<or> 2 \<le> length containers"
  then have "containers \<noteq> []" and "dc \<Longrightarrow> length containers \<noteq> Suc 0"
    by auto
  with assms show "enterContainer w container dc image' release command emit fb False =
          (Return (Some (ErrorsNew
             (''container '' @ container @ '' not found'' @ [CHR 0x0A]
                @ ''Use the '--container' option to select a toolbox.'' @ [CHR 0x0A]
                @ ''Run '' @ [CHR 0x27] @ executableBase w @ '' --help' for usage.''))),
           [E_ContainerExists container, E_listContainers])"
    by (cases dc) (simp_all add: enterContainer_def containerToEnter_def Let_def prepend_def)
next
  assume a: "\<not> isInsideContainer w'
          \<and> (supplied w' args = [] \<or> isContainerNameValid w' (supplied w' args))
          \<and> (if enterFlags_release w' = [] then Some []
               else parseRelease w' (enterFlags_release w')) = Some rel
          \<and> resolveContainerAndImageNames w' (supplied w' args) [] rel = Inr (c, img, rel')
          \<and> getenv w' ''SHELL'' \<noteq> []
          \<and> getHostID w' = Some hostID \<and> getHostVariantID w' = Some hostVariantID"
  then have host: "\<not> isInsideContainer w'"
    and name: "supplied w' args = [] \<or> isContainerNameValid w' (supplied w' args)"
    and rel: "(if enterFlags_release w' = [] then Some []
               else parseRelease w' (enterFlags_release w')) = Some rel"
    and res: "resolveContainerAndImageNames w' (supplied w' args) [] rel = Inr (c, img, rel')"
    and sh: "getenv w' ''SHELL'' \<noteq> []"
    and ids: "getHostID w' = Some hostID" "getHostVariantID w' = Some hostVariantID"
    by blast+
  from rel have rel': "(if enterFlags_release w' \<noteq> []
                        then parseRelease w' (enterFlags_release w') else Some []) = Some rel"
    by (simp split: if_splits)
  from name show "enter w' args =
          enterContainer w' c (supplied w' args = [] \<and> enterFlags_release w' = []) img rel'
            [getenv w' ''SHELL'', ''-l'']
            (hostID = ''fedora''
             \<and> (hostVariantID = ''silverblue'' \<or> hostVariantID = ''workstation''))
            True False"
  proof
    assume "supplied w' args = []"
    with host rel' res sh ids show ?thesis
      by (simp add: enter_def Let_def)
  next
    assume "isContainerNameValid w' (supplied w' args)"
    with host rel' res sh ids show ?thesis
      by (simp add: enter_def Let_def)
  qed
qed


theorem C1_single_container_fallback_witness:
  "fst (enter (hostWorld\<lparr>containerExists := \<lambda>_. False,
                          listContainers := Inr [\<lparr>Names = [''dev'']\<rparr>]\<rparr>) []) = Return None
   \<and> take 7 (snd (enter (hostWorld\<lparr>containerExists := \<lambda>_. False,
                                     listContainers := Inr [\<lparr>Names = [''dev'']\<rparr>]\<rparr>) [])) =
       [E_ContainerExists ''fedora-toolbox-33'', E_listContainers,
        E_Stderr (''Error: container fedora-toolbox-33 not found'' @ [CHR 0x0A]),
        E_Stderr (''Entering container dev instead.'' @ [CHR 0x0A]),
        E_Stderr (''Use the 'create' command to create a different toolbox.'' @ [CHR 0x0A]),
        E_Stderr (''Run 'toolbox --help' for usage.'' @ [CHR 0x0A]),
        E_callFlatpakSessionHelper ''dev'']
   \<and> enter (hostWorld\<lparr>containerExists := \<lambda>_. False,
                        listContainers := Inr [\<lparr>Names = [''dev'']\<rparr>]\<rparr>) [''work''] =
       (Return (Some (ErrorsNew
          (''container work not found'' @ [CHR 0x0A]
             @ ''Use the '--container' option to select a toolbox.'' @ [CHR 0x0A]
             @ ''Run 'toolbox --help' for usage.''))),
        [E_ContainerExists ''work'', E_listContainers])
   \<and> enterContainer (hostWorld\<lparr>containerExists := \<lambda>_. False,
                        listContainers := Inr [\<lparr>Names = [''dev'']\<rparr>, \<lparr>Names = [''work'']\<rparr>]\<rparr>)
         ''fedora-toolbox-33'' True ''registry.fedoraproject.org/f33/fedora-toolbox:33'' ''33''
         [''/bin/zsh'', ''-l''] True True False =
       (Return (Some (ErrorsNew
          (''container fedora-toolbox-33 not found'' @ [CHR 0x0A]
             @ ''Use the '--container' option to select a toolbox.'' @ [CHR 0x0A]
             @ ''Run 'toolbox --help' for usage.''))),
        [E_ContainerExists ''fedora-toolbox-33'', E_listContainers])"
proof -
  let ?one = "hostWorld\<lparr>containerExists := \<lambda>_. False,
                          listContainers := Inr [\<lparr>Names = [''dev'']\<rparr>]\<rparr>"
  let ?two = "hostWorld\<lparr>containerExists := \<lambda>_. False,
                listContainers := Inr [\<lparr>Names = [''dev'']\<rparr>, \<lparr>Names = [''work'']\<rparr>]\<rparr>"
  let ?img = "''registry.fedoraproject.org/f33/fedora-toolbox:33''"
  have img: "?img \<noteq> []" and rel: "''33'' \<noteq> []" by simp_all
  have missing: "\<not> containerExists ?one c" "\<not> containerExists ?two c" for c by simp_all
  have one: "listContainers ?one = Inr [\<lparr>Names = [''dev'']\<rparr>]" by simp
  have two: "listContainers ?two = Inr [\<lparr>Names = [''dev'']\<rparr>, \<lparr>Names = [''work'']\<rparr>]"
    by simp
  note default =
    C1_single_container_fallback [OF img rel missing(1) one,
      where dc = True and ctr = "\<lparr>Names = [''dev'']\<rparr>" and name = "''dev''" and aliases = "[]"
        and command = "[''/bin/zsh'', ''-l'']" and emit = True and fb = True
        and container = "''fedora-toolbox-33''"
        and w' = ?one and args = "[]" and rel = "[]" and c = "''fedora-toolbox-33''"
        and img = ?img and rel' = "''33''" and hostID = "''fedora''"
        and hostVariantID = "''workstation''"]
  note named =
    C1_single_container_fallback [OF img rel missing(1) one,
      where dc = False and command = "[''/bin/zsh'', ''-l'']" and emit = True and fb = True
        and container = "''work''"
        and w' = ?one and args = "[''work'']" and rel = "[]" and c = "''work''"
        and img = ?img and rel' = "''33''" and hostID = "''fedora''"
        and hostVariantID = "''workstation''"]
  note several =
    C1_single_container_fallback [OF img rel missing(2) two,
      where dc = True and command = "[''/bin/zsh'', ''-l'']" and emit = True and fb = True
        and container = "''fedora-toolbox-33''"]
  from default have a:
    "fst (enter ?one []) = Return None
     \<and> take 7 (snd (enter ?one [])) =
       [E_ContainerExists ''fedora-toolbox-33'', E_listContainers,
        E_Stderr (''Error: container fedora-toolbox-33 not found'' @ [CHR 0x0A]),
        E_Stderr (''Entering container dev instead.'' @ [CHR 0x0A]),
        E_Stderr (''Use the 'create' command to create a different toolbox.'' @ [CHR 0x0A]),
        E_Stderr (''Run 'toolbox --help' for usage.'' @ [CHR 0x0A]),
        E_callFlatpakSessionHelper ''dev'']"
    by (simp add: supplied_def hostWorld_sel startAndEnter_def waitAndEnter_def
          enterInitialized_def runPodmanExec_def execArgs_def classifyExitCode_def
          escapePush_def escapePop_def prepend_def fmt_d_def initializedTimeout_def Let_def
          waitForStamp.simps decimal.simps)
  from named have b:
    "enter ?one [''work''] =
       (Return (Some (ErrorsNew
          (''container work not found'' @ [CHR 0x0A]
             @ ''Use the '--container' option to select a toolbox.'' @ [CHR 0x0A]
             @ ''Run 'toolbox --help' for usage.''))),
        [E_ContainerExists ''work'', E_listContainers])"
    by (simp add: supplied_def hostWorld_sel)
  from several have c:
    "enterContainer ?two ''fedora-toolbox-33'' True ?img ''33''
         [''/bin/zsh'', ''-l''] True True False =
       (Return (Some (ErrorsNew
          (''container fedora-toolbox-33 not found'' @ [CHR 0x0A]
             @ ''Use the '--container' option to select a toolbox.'' @ [CHR 0x0A]
             @ ''Run 'toolbox --help' for usage.''))),
        [E_ContainerExists ''fedora-toolbox-33'', E_listContainers])"
    by (simp add: hostWorld_sel)
  from a b c show ?thesis by blast
qed


text \<open>
  C7. Permissive mode, the requested container is missing and no container exists.
  With \<open>rootFlags.assumeYes\<close> set, the run contains exactly one call of
  \<open>createContainer\<close>, with the requested container, image and release, and no prompt;
  when the creation succeeds the run goes on with \<open>startAndEnter\<close> for that container.
  Without the flag, a declined prompt ends the run with \<open>nil\<close> after two lines on
  standard output; nothing is created.
\<close>

theorem C7_create_when_no_container:
  assumes "image' \<noteq> []" and "release \<noteq> []"
    and "\<not> containerExists w container"
    and "listContainers w = Inr []"
  shows
    "(rootFlags_assumeYes w \<longrightarrow>
        filter is_createContainer
          (snd (enterContainer w container dc image' release command emit fb False)) =
          [E_createContainer container image' release False]
        \<and> filter is_AskForConfirmation
          (snd (enterContainer w container dc image' release command emit fb False)) = []
        \<and> (createContainer w container image' release False = None \<longrightarrow>
             enterContainer w container dc image' release command emit fb False =
               prepend
                 [E_ContainerExists container, E_listContainers,
                  E_createContainer container image' release False]
                 (startAndEnter w container command emit fb)))
     \<and> (\<not> rootFlags_assumeYes w
          \<and> \<not> askForConfirmation w ''No toolbox containers found. Create now? [y/N]'' \<longrightarrow>
        enterContainer w container dc image' release command emit fb False =
          (Return None,
           [E_ContainerExists container, E_listContainers,
            E_AskForConfirmation ''No toolbox containers found. Create now? [y/N]'',
            E_Stdout (''A container can be created later with the 'create' command.''
                        @ [CHR 0x0A]),
            E_Stdout (''Run '' @ [CHR 0x27] @ executableBase w @ '' --help' for usage.''
                        @ [CHR 0x0A])]))"
proof (intro conjI impI)
  assume yes: "rootFlags_assumeYes w"
  show "filter is_createContainer
          (snd (enterContainer w container dc image' release command emit fb False)) =
          [E_createContainer container image' release False]"
  proof (cases "createContainer w container image' release False")
    case None
    with assms yes have "enterContainer w container dc image' release command emit fb False =
        prepend
          [E_ContainerExists container, E_listContainers,
           E_createContainer container image' release False]
          (startAndEnter w container command emit fb)"
      by (simp add: enterContainer_def containerToEnter_def Let_def prepend_def)
    then show ?thesis
      by (simp add: startAndEnter_filters is_createContainer_def)
  next
    case (Some e)
    with assms yes have "snd (enterContainer w container dc image' release command emit fb False) =
          [E_ContainerExists container, E_listContainers,
           E_createContainer container image' release False]"
      by (simp add: enterContainer_def containerToEnter_def Let_def prepend_def)
    then show ?thesis
      by (simp add: is_createContainer_def)
  qed
  show "filter is_AskForConfirmation
          (snd (enterContainer w container dc image' release command emit fb False)) = []"
  proof (cases "createContainer w container image' release False")
    case None
    with assms yes have "enterContainer w container dc image' release command emit fb False =
        prepend
          [E_ContainerExists container, E_listContainers,
           E_createContainer container image' release False]
          (startAndEnter w container command emit fb)"
      by (simp add: enterContainer_def containerToEnter_def Let_def prepend_def)
    then show ?thesis
      by (simp add: startAndEnter_filters is_AskForConfirmation_def)
  next
    case (Some e)
    with assms yes have "snd (enterContainer w container dc image' release command emit fb False) =
          [E_ContainerExists container, E_listContainers,
           E_createContainer container image' release False]"
      by (simp add: enterContainer_def containerToEnter_def Let_def prepend_def)
    then show ?thesis
      by (simp add: is_AskForConfirmation_def)
  qed
  assume "createContainer w container image' release False = None"
  with assms yes show "enterContainer w container dc image' release command emit fb False =
        prepend
          [E_ContainerExists container, E_listContainers,
           E_createContainer container image' release False]
          (startAndEnter w container command emit fb)"
    by (simp add: enterContainer_def containerToEnter_def Let_def prepend_def)
next
  assume "\<not> rootFlags_assumeYes w
          \<and> \<not> askForConfirmation w ''No toolbox containers found. Create now? [y/N]''"
  with assms show "enterContainer w container dc image' release command emit fb False =
          (Return None,
           [E_ContainerExists container, E_listContainers,
            E_AskForConfirmation ''No toolbox containers found. Create now? [y/N]'',
            E_Stdout (''A container can be created later with the 'create' command.''
                        @ [CHR 0x0A]),
            E_Stdout (''Run '' @ [CHR 0x27] @ executableBase w @ '' --help' for usage.''
                        @ [CHR 0x0A])])"
    by (simp add: enterContainer_def containerToEnter_def Let_def prepend_def)
qed

theorem C7_create_when_no_container_witness:
  "filter is_createContainer
     (snd (enterContainer
        (hostWorld\<lparr>containerExists := \<lambda>_. False, listContainers := Inr [],
                    rootFlags_assumeYes := True\<rparr>)
        ''fedora-toolbox-33'' True ''registry.fedoraproject.org/f33/fedora-toolbox:33'' ''33''
        [''/bin/zsh'', ''-l''] True True False)) =
     [E_createContainer ''fedora-toolbox-33''
        ''registry.fedoraproject.org/f33/fedora-toolbox:33'' ''33'' False]
   \<and> filter is_AskForConfirmation
     (snd (enterContainer
        (hostWorld\<lparr>containerExists := \<lambda>_. False, listContainers := Inr [],
                    rootFlags_assumeYes := True\<rparr>)
        ''fedora-toolbox-33'' True ''registry.fedoraproject.org/f33/fedora-toolbox:33'' ''33''
        [''/bin/zsh'', ''-l''] True True False)) = []
   \<and> fst (enterContainer
        (hostWorld\<lparr>containerExists := \<lambda>_. False, listContainers := Inr [],
                    rootFlags_assumeYes := True\<rparr>)
        ''fedora-toolbox-33'' True ''registry.fedoraproject.org/f33/fedora-toolbox:33'' ''33''
        [''/bin/zsh'', ''-l''] True True False) = Return None
   \<and> take 4 (snd (enterContainer
        (hostWorld\<lparr>containerExists := \<lambda>_. False, listContainers := Inr [],
                    rootFlags_assumeYes := True\<rparr>)
        ''fedora-toolbox-33'' True ''registry.fedoraproject.org/f33/fedora-toolbox:33'' ''33''
        [''/bin/zsh'', ''-l''] True True False)) =
     [E_ContainerExists ''fedora-toolbox-33'', E_listContainers,
      E_createContainer ''fedora-toolbox-33''
        ''registry.fedoraproject.org/f33/fedora-toolbox:33'' ''33'' False,
      E_callFlatpakSessionHelper ''fedora-toolbox-33'']
   \<and> enterContainer
        (hostWorld\<lparr>containerExists := \<lambda>_. False, listContainers := Inr []\<rparr>)
        ''fedora-toolbox-33'' True ''registry.fedoraproject.org/f33/fedora-toolbox:33'' ''33''
        [''/bin/zsh'', ''-l''] True True False =
     (Return None,
      [E_ContainerExists ''fedora-toolbox-33'', E_listContainers,
       E_AskForConfirmation ''No toolbox containers found. Create now? [y/N]'',
       E_Stdout (''A container can be created later with the 'create' command.'' @ [CHR 0x0A]),
       E_Stdout (''Run 'toolbox --help' for usage.'' @ [CHR 0x0A])])"
proof -
  let ?yes = "hostWorld\<lparr>containerExists := \<lambda>_. False, listContainers := Inr [],
                          rootFlags_assumeYes := True\<rparr>"
  let ?ask = "hostWorld\<lparr>containerExists := \<lambda>_. False, listContainers := Inr []\<rparr>"
  let ?img = "''registry.fedoraproject.org/f33/fedora-toolbox:33''"
  have img: "?img \<noteq> []" and rel: "''33'' \<noteq> []" by simp_all
  have missing: "\<not> containerExists ?yes c" "\<not> containerExists ?ask c" for c by simp_all
  have none: "listContainers ?yes = Inr []" "listContainers ?ask = Inr []" by simp_all
  note created =
    C7_create_when_no_container [OF img rel missing(1) none(1),
      where dc = True and command = "[''/bin/zsh'', ''-l'']" and emit = True and fb = True
        and container = "''fedora-toolbox-33''"]
  note declined =
    C7_create_when_no_container [OF img rel missing(2) none(2),
      where dc = True and command = "[''/bin/zsh'', ''-l'']" and emit = True and fb = True
        and container = "''fedora-toolbox-33''"]
  have yes: "rootFlags_assumeYes ?yes" "createContainer ?yes c i r p = None" for c i r p
    by (simp_all add: hostWorld_sel)
  have no: "\<not> rootFlags_assumeYes ?ask" "\<not> askForConfirmation ?ask q" for q
    by (simp_all add: hostWorld_sel)
  note granted = created [THEN conjunct1, THEN mp, OF yes(1)]
  note a = granted [THEN conjunct1]
  note b = granted [THEN conjunct2, THEN conjunct1]
  note c = granted [THEN conjunct2, THEN conjunct2, THEN mp, OF yes(2)]
  have d: "fst (startAndEnter ?yes ''fedora-toolbox-33'' [''/bin/zsh'', ''-l''] True True)
             = Return None
           \<and> take 1 (snd (startAndEnter ?yes ''fedora-toolbox-33'' [''/bin/zsh'', ''-l'']
                             True True)) = [E_callFlatpakSessionHelper ''fedora-toolbox-33'']"
    by (simp add: hostWorld_sel startAndEnter_def waitAndEnter_def
          enterInitialized_def runPodmanExec_def execArgs_def classifyExitCode_def
          escapePush_def escapePop_def prepend_def fmt_d_def initializedTimeout_def Let_def
          waitForStamp.simps decimal.simps)
  from declined no have e:
    "enterContainer ?ask ''fedora-toolbox-33'' True ?img ''33''
        [''/bin/zsh'', ''-l''] True True False =
     (Return None,
      [E_ContainerExists ''fedora-toolbox-33'', E_listContainers,
       E_AskForConfirmation ''No toolbox containers found. Create now? [y/N]'',
       E_Stdout (''A container can be created later with the 'create' command.'' @ [CHR 0x0A]),
       E_Stdout (''Run 'toolbox --help' for usage.'' @ [CHR 0x0A])])"
    by (simp add: hostWorld_sel)
  from a b c d e show ?thesis
    by (simp add: prepend_def)
qed

text \<open>
  C10. Permissive mode, the requested container is missing and \<open>listContainers\<close>
  itself fails. enterContainer returns the result of
  \<open>utils.CreateErrorContainerNotFound(container, executableBase)\<close>, whatever the error of
  the listing was; this is the error that pedantic mode returns for a missing container.
  The run consists of the two look-ups: nothing is created, substituted or asked.
\<close>

theorem C10_listing_failure_is_not_found:
  assumes "image' \<noteq> []" and "release \<noteq> []"
    and "\<not> containerExists w container"
    and "listContainers w = Inl e"
  shows
    "enterContainer w container dc image' release command emit fb False =
       (Return (Some (CreateErrorContainerNotFound container (executableBase w))),
        [E_ContainerExists container, E_listContainers])
     \<and> enterContainer w container dc image' release command emit fb True =
       (Return (Some (CreateErrorContainerNotFound container (executableBase w))),
        [E_ContainerExists container])"
  using assms
  by (simp add: enterContainer_def containerToEnter_def Let_def prepend_def)

theorem C10_listing_failure_is_not_found_witness:
  "enterContainer
     (hostWorld\<lparr>containerExists := \<lambda>_. False,
                 listContainers := Inl (CollaboratorError ''podman ps failed'')\<rparr>)
     ''fedora-toolbox-33'' True ''registry.fedoraproject.org/f33/fedora-toolbox:33'' ''33''
     [''/bin/zsh'', ''-l''] True True False =
   (Return (Some (CreateErrorContainerNotFound ''fedora-toolbox-33'' ''toolbox'')),
    [E_ContainerExists ''fedora-toolbox-33'', E_listContainers])"
proof -
  let ?w = "hostWorld\<lparr>containerExists := \<lambda>_. False,
                        listContainers := Inl (CollaboratorError ''podman ps failed'')\<rparr>"
  let ?img = "''registry.fedoraproject.org/f33/fedora-toolbox:33''"
  have img: "?img \<noteq> []" and rel: "''33'' \<noteq> []" by simp_all
  have missing: "\<not> containerExists ?w ''fedora-toolbox-33''" by simp
  have failed: "listContainers ?w = Inl (CollaboratorError ''podman ps failed'')" by simp
  from C10_listing_failure_is_not_found [OF img rel missing failed,
      of True "[''/bin/zsh'', ''-l'']" True True]
  show ?thesis by (simp add: hostWorld_sel)
qed


section \<open>The entry point and the initialization stamp\<close>

text \<open>
  C6. Let the block that chooses the container fall through with container \<open>c\<close>,
  let the Flatpak session helper and the start of \<open>c\<close> succeed and let
  \<open>getEntryPointAndPID\<close> return \<open>(entryPoint, pid)\<close>. If \<open>entryPoint\<close> is not
  \<open>toolbox\<close>, enterContainer returns the error "container c is too old and no longer
  supported ... Recreate it ..." right after the fetch: the stamp is never polled, so what
  \<open>pathExists\<close> would answer plays no part. If \<open>entryPoint\<close> is \<open>toolbox\<close> and
  \<open>pid\<close> is not positive, it returns "invalid entry point PID of container c".
\<close>

theorem C6_entry_point_validated:
  assumes "ped \<or> (image' \<noteq> [] \<and> release \<noteq> [])"
    and "fst (containerToEnter w container dc image' release ped) = Inr c"
    and "callFlatpakSessionHelper w c = None"
    and "startContainer w c = None"
    and "getEntryPointAndPID w c = Inr (entryPoint, pid)"
  shows
    "(entryPoint \<noteq> ''toolbox'' \<longrightarrow>
        enterContainer w container dc image' release command emit fb ped =
          (Return (Some (ErrorsNew
             (''container '' @ c @ '' is too old and no longer supported '' @ [CHR 0x0A]
                @ ''Recreate it with Toolbox version 0.0.17 or newer.'' @ [CHR 0x0A]))),
           snd (containerToEnter w container dc image' release ped)
           @ [E_callFlatpakSessionHelper c, E_startContainer c, E_getEntryPointAndPID c])
        \<and> filter is_PathExists
              (snd (enterContainer w container dc image' release command emit fb ped)) = [])
     \<and> (entryPoint = ''toolbox'' \<and> pid \<le> 0 \<longrightarrow>
        enterContainer w container dc image' release command emit fb ped =
          (Return (Some (ErrorsNew (''invalid entry point PID of container '' @ c))),
           snd (containerToEnter w container dc image' release ped)
           @ [E_callFlatpakSessionHelper c, E_startContainer c, E_getEntryPointAndPID c]))"
proof -
  have unfolded: "enterContainer w container dc image' release command emit fb ped =
      prepend (snd (containerToEnter w container dc image' release ped))
        (startAndEnter w c command emit fb)"
    using assms(1,2) by (auto simp: enterContainer_def Let_def)
  have quiet: "filter is_PathExists (snd (containerToEnter w container dc image' release ped)) = []"
    using containerToEnter_events(2) [of _ w container dc image' release ped]
    by (auto simp: filter_empty_conv is_PathExists_def split: event.splits)
  show ?thesis
  proof (intro conjI impI)
    assume old: "entryPoint \<noteq> ''toolbox''"
    with assms(3-5) have "startAndEnter w c command emit fb =
        (Return (Some (ErrorsNew
           (''container '' @ c @ '' is too old and no longer supported '' @ [CHR 0x0A]
              @ ''Recreate it with Toolbox version 0.0.17 or newer.'' @ [CHR 0x0A]))),
         [E_callFlatpakSessionHelper c, E_startContainer c, E_getEntryPointAndPID c])"
      by (simp add: startAndEnter_def prepend_def)
    with unfolded show old_result:
      "enterContainer w container dc image' release command emit fb ped =
          (Return (Some (ErrorsNew
             (''container '' @ c @ '' is too old and no longer supported '' @ [CHR 0x0A]
                @ ''Recreate it with Toolbox version 0.0.17 or newer.'' @ [CHR 0x0A]))),
           snd (containerToEnter w container dc image' release ped)
           @ [E_callFlatpakSessionHelper c, E_startContainer c, E_getEntryPointAndPID c])"
      by (simp add: prepend_def)
    show "filter is_PathExists
              (snd (enterContainer w container dc image' release command emit fb ped)) = []"
      unfolding old_result using quiet by (simp add: is_PathExists_def)
  next
    assume "entryPoint = ''toolbox'' \<and> pid \<le> 0"
    with assms(3-5) have "startAndEnter w c command emit fb =
        (Return (Some (ErrorsNew (''invalid entry point PID of container '' @ c))),
         [E_callFlatpakSessionHelper c, E_startContainer c, E_getEntryPointAndPID c])"
      by (simp add: startAndEnter_def prepend_def)
    with unfolded show
      "enterContainer w container dc image' release command emit fb ped =
          (Return (Some (ErrorsNew (''invalid entry point PID of container '' @ c))),
           snd (containerToEnter w container dc image' release ped)
           @ [E_callFlatpakSessionHelper c, E_startContainer c, E_getEntryPointAndPID c])"
      by (simp add: prepend_def)
  qed
qed

theorem C6_entry_point_validated_witness:
  "enterContainer
     (hostWorld\<lparr>getEntryPointAndPID := \<lambda>_. Inr (''sleep'', 4242), pathExists := \<lambda>_ _. True\<rparr>)
     ''fedora-toolbox-33'' True ''registry.fedoraproject.org/f33/fedora-toolbox:33'' ''33''
     [''/bin/zsh'', ''-l''] True True False =
   (Return (Some (ErrorsNew
      (''container fedora-toolbox-33 is too old and no longer supported '' @ [CHR 0x0A]
         @ ''Recreate it with Toolbox version 0.0.17 or newer.'' @ [CHR 0x0A]))),
    [E_ContainerExists ''fedora-toolbox-33'', E_callFlatpakSessionHelper ''fedora-toolbox-33'',
     E_startContainer ''fedora-toolbox-33'', E_getEntryPointAndPID ''fedora-toolbox-33''])
   \<and> enterContainer
     (hostWorld\<lparr>getEntryPointAndPID := \<lambda>_. Inr (''toolbox'', 0)\<rparr>)
     ''fedora-toolbox-33'' True ''registry.fedoraproject.org/f33/fedora-toolbox:33'' ''33''
     [''/bin/zsh'', ''-l''] True True False =
   (Return (Some (ErrorsNew ''invalid entry point PID of container fedora-toolbox-33'')),
    [E_ContainerExists ''fedora-toolbox-33'', E_callFlatpakSessionHelper ''fedora-toolbox-33'',
     E_startContainer ''fedora-toolbox-33'', E_getEntryPointAndPID ''fedora-toolbox-33''])"
proof -
  let ?old = "hostWorld\<lparr>getEntryPointAndPID := \<lambda>_. Inr (''sleep'', 4242),
                          pathExists := \<lambda>_ _. True\<rparr>"
  let ?zero = "hostWorld\<lparr>getEntryPointAndPID := \<lambda>_. Inr (''toolbox'', 0)\<rparr>"
  let ?img = "''registry.fedoraproject.org/f33/fedora-toolbox:33''"
  let ?c = "''fedora-toolbox-33''"
  have pre: "False \<or> (?img \<noteq> [] \<and> ''33'' \<noteq> [])" by simp
  have sel: "fst (containerToEnter ?old ?c True ?img ''33'' False) = Inr ?c"
    "fst (containerToEnter ?zero ?c True ?img ''33'' False) = Inr ?c"
    by (simp_all add: containerToEnter_def hostWorld_sel)
  have tr: "snd (containerToEnter ?old ?c True ?img ''33'' False) = [E_ContainerExists ?c]"
    "snd (containerToEnter ?zero ?c True ?img ''33'' False) = [E_ContainerExists ?c]"
    by (simp_all add: containerToEnter_def hostWorld_sel)
  have ok: "callFlatpakSessionHelper ?old ?c = None" "startContainer ?old ?c = None"
    "callFlatpakSessionHelper ?zero ?c = None" "startContainer ?zero ?c = None"
    by (simp_all add: hostWorld_sel)
  have ep: "getEntryPointAndPID ?old ?c = Inr (''sleep'', 4242)"
    "getEntryPointAndPID ?zero ?c = Inr (''toolbox'', 0)"
    by simp_all
  from C6_entry_point_validated [OF pre sel(1) ok(1,2) ep(1),
      of "[''/bin/zsh'', ''-l'']" True True]
    C6_entry_point_validated [OF pre sel(2) ok(3,4) ep(2),
      of "[''/bin/zsh'', ''-l'']" True True]
  show ?thesis by (simp add: tr)
qed


text \<open>
  C2, as the code has it. Let the container \<open>c\<close> be chosen and started and its entry
  point be \<open>toolbox\<close> with a positive \<open>pid\<close>; the stamp is
  \<open>dir/container-initialized-pid\<close> for the runtime directory \<open>dir\<close>. It is polled
  before the first sleep and after each of at most 25 sleeps of one second, 26 polls at
  most. If the stamp is first there after \<open>k\<close> seconds, \<open>k\<close> at most 25, the run has
  exactly \<open>k\<close> sleeps and \<open>k + 1\<close> polls and goes on with the check of the command.
  If it is absent at all 26 polls the run ends after 25 sleeps with the error
  "failed to initialize container c".
\<close>

theorem C2_stamp_polled_until_timeout:
  assumes "ped \<or> (image' \<noteq> [] \<and> release \<noteq> [])"
    and "fst (containerToEnter w container dc image' release ped) = Inr c"
    and "callFlatpakSessionHelper w c = None"
    and "startContainer w c = None"
    and "getEntryPointAndPID w c = Inr (''toolbox'', pid)"
    and "0 < pid"
    and "getRuntimeDirectory w = Inr dir"
    and "stamp = dir @ ''/container-initialized-'' @ fmt_d pid"
  shows
    "(k \<le> 25 \<and> (\<forall>j<k. \<not> pathExists w j stamp) \<and> pathExists w k stamp \<longrightarrow>
        enterContainer w container dc image' release command emit fb ped =
          prepend
            (snd (containerToEnter w container dc image' release ped)
             @ [E_callFlatpakSessionHelper c, E_startContainer c, E_getEntryPointAndPID c]
             @ concat (replicate k [E_PathExists stamp, E_Sleep_Second])
             @ [E_PathExists stamp])
            (enterInitialized w c command emit fb))
     \<and> ((\<forall>j\<le>25. \<not> pathExists w j stamp) \<longrightarrow>
        enterContainer w container dc image' release command emit fb ped =
          (Return (Some (ErrorsNew (''failed to initialize container '' @ c))),
           snd (containerToEnter w container dc image' release ped)
           @ [E_callFlatpakSessionHelper c, E_startContainer c, E_getEntryPointAndPID c]
           @ concat (replicate 25 [E_PathExists stamp, E_Sleep_Second])
           @ [E_PathExists stamp]))"
proof -
  note validated = enterContainer_validated [OF assms(1-6), of command emit fb]
  have wait: "waitAndEnter w c pid command emit fb =
      (case fst (waitForStamp w c stamp 0 0) of
         Some e \<Rightarrow> (Return (Some e), snd (waitForStamp w c stamp 0 0))
       | None \<Rightarrow>
           prepend (snd (waitForStamp w c stamp 0 0)) (enterInitialized w c command emit fb))"
    using assms(7) unfolding assms(8)
    by (simp add: waitAndEnter_def Let_def split: option.split)
  show ?thesis
  proof (intro conjI impI)
    assume "k \<le> 25 \<and> (\<forall>j<k. \<not> pathExists w j stamp) \<and> pathExists w k stamp"
    then have "waitForStamp w c stamp 0 0 =
        (None, concat (replicate k [E_PathExists stamp, E_Sleep_Second]) @ [E_PathExists stamp])"
      using waitForStamp_found [of 0 k w 0 stamp c] by simp
    with wait validated show
      "enterContainer w container dc image' release command emit fb ped =
          prepend
            (snd (containerToEnter w container dc image' release ped)
             @ [E_callFlatpakSessionHelper c, E_startContainer c, E_getEntryPointAndPID c]
             @ concat (replicate k [E_PathExists stamp, E_Sleep_Second])
             @ [E_PathExists stamp])
            (enterInitialized w c command emit fb)"
      by (simp add: prepend_def)
  next
    assume "\<forall>j\<le>25. \<not> pathExists w j stamp"
    then have "waitForStamp w c stamp 0 0 =
        (Some (ErrorsNew (''failed to initialize container '' @ c)),
         concat (replicate 25 [E_PathExists stamp, E_Sleep_Second]) @ [E_PathExists stamp])"
      using waitForStamp_timeout [of 0 25 w 0 stamp c] by simp
    with wait validated show
      "enterContainer w container dc image' release command emit fb ped =
          (Return (Some (ErrorsNew (''failed to initialize container '' @ c))),
           snd (containerToEnter w container dc image' release ped)
           @ [E_callFlatpakSessionHelper c, E_startContainer c, E_getEntryPointAndPID c]
           @ concat (replicate 25 [E_PathExists stamp, E_Sleep_Second])
           @ [E_PathExists stamp])"
      by (simp add: prepend_def)
  qed
qed

theorem C2_stamp_polled_until_timeout_witness:
  "take 9 (snd (enterContainer hostWorld ''fedora-toolbox-33'' True
             ''registry.fedoraproject.org/f33/fedora-toolbox:33'' ''33''
             [''/bin/zsh'', ''-l''] True True False)) =
     [E_ContainerExists ''fedora-toolbox-33'', E_callFlatpakSessionHelper ''fedora-toolbox-33'',
      E_startContainer ''fedora-toolbox-33'', E_getEntryPointAndPID ''fedora-toolbox-33'',
      E_PathExists ''/run/user/1000/toolbox/container-initialized-4242'', E_Sleep_Second,
      E_PathExists ''/run/user/1000/toolbox/container-initialized-4242'', E_Sleep_Second,
      E_PathExists ''/run/user/1000/toolbox/container-initialized-4242'']
   \<and> length (filter (\<lambda>ev. ev = E_Sleep_Second)
        (snd (enterContainer hostWorld ''fedora-toolbox-33'' True
             ''registry.fedoraproject.org/f33/fedora-toolbox:33'' ''33''
             [''/bin/zsh'', ''-l''] True True False))) = 2
   \<and> enterContainer (hostWorld\<lparr>pathExists := \<lambda>_ _. False\<rparr>) ''fedora-toolbox-33'' True
        ''registry.fedoraproject.org/f33/fedora-toolbox:33'' ''33''
        [''/bin/zsh'', ''-l''] True True False =
      (Return (Some (ErrorsNew ''failed to initialize container fedora-toolbox-33'')),
       [E_ContainerExists ''fedora-toolbox-33'', E_callFlatpakSessionHelper ''fedora-toolbox-33'',
        E_startContainer ''fedora-toolbox-33'', E_getEntryPointAndPID ''fedora-toolbox-33'']
       @ concat (replicate 25
           [E_PathExists ''/run/user/1000/toolbox/container-initialized-4242'', E_Sleep_Second])
       @ [E_PathExists ''/run/user/1000/toolbox/container-initialized-4242''])"
proof -
  let ?never = "hostWorld\<lparr>pathExists := \<lambda>_ _. False\<rparr>"
  let ?img = "''registry.fedoraproject.org/f33/fedora-toolbox:33''"
  let ?c = "''fedora-toolbox-33''"
  let ?stamp = "''/run/user/1000/toolbox/container-initialized-4242''"
  have pre: "False \<or> (?img \<noteq> [] \<and> ''33'' \<noteq> [])" by simp
  have sel: "fst (containerToEnter hostWorld ?c True ?img ''33'' False) = Inr ?c"
    "fst (containerToEnter ?never ?c True ?img ''33'' False) = Inr ?c"
    by (simp_all add: containerToEnter_def hostWorld_sel)
  have tr: "snd (containerToEnter hostWorld ?c True ?img ''33'' False) = [E_ContainerExists ?c]"
    "snd (containerToEnter ?never ?c True ?img ''33'' False) = [E_ContainerExists ?c]"
    by (simp_all add: containerToEnter_def hostWorld_sel)
  have ok: "callFlatpakSessionHelper hostWorld ?c = None" "startContainer hostWorld ?c = None"
    "callFlatpakSessionHelper ?never ?c = None" "startContainer ?never ?c = None"
    by (simp_all add: hostWorld_sel)
  have ep: "getEntryPointAndPID hostWorld ?c = Inr (''toolbox'', 4242)"
    "getEntryPointAndPID ?never ?c = Inr (''toolbox'', 4242)"
    by (simp_all add: hostWorld_sel)
  have pid: "(0::int) < 4242" by simp
  have dir: "getRuntimeDirectory hostWorld = Inr ''/run/user/1000/toolbox''"
    "getRuntimeDirectory ?never = Inr ''/run/user/1000/toolbox''"
    by (simp_all add: hostWorld_sel)
  have stamp: "?stamp = ''/run/user/1000/toolbox'' @ ''/container-initialized-'' @ fmt_d 4242"
    by (simp add: fmt_d_def decimal.simps)
  have found: "(2::nat) \<le> 25 \<and> (\<forall>j<2. \<not> pathExists hostWorld j ?stamp)
      \<and> pathExists hostWorld 2 ?stamp"
    by (simp add: hostWorld_sel)
  have never: "\<forall>j\<le>25. \<not> pathExists ?never j ?stamp"
    by simp
  note a = C2_stamp_polled_until_timeout [OF pre sel(1) ok(1,2) ep(1) pid dir(1) stamp,
      where k = 2 and command = "[''/bin/zsh'', ''-l'']" and emit = True and fb = True,
      THEN conjunct1, THEN mp, OF found]
  note b = C2_stamp_polled_until_timeout [OF pre sel(2) ok(3,4) ep(2) pid dir(2) stamp,
      where k = 0 and command = "[''/bin/zsh'', ''-l'']" and emit = True and fb = True,
      THEN conjunct2, THEN mp, OF never]
  have rest: "filter (\<lambda>ev. ev = E_Sleep_Second)
      (snd (enterInitialized hostWorld ?c [''/bin/zsh'', ''-l''] True True)) = []"
    by (simp add: hostWorld_sel enterInitialized_def runPodmanExec_def execArgs_def
          classifyExitCode_def prepend_def Let_def)
  from a rest have a': "take 9 (snd (enterContainer hostWorld ?c True ?img ''33''
             [''/bin/zsh'', ''-l''] True True False)) =
     [E_ContainerExists ?c, E_callFlatpakSessionHelper ?c,
      E_startContainer ?c, E_getEntryPointAndPID ?c,
      E_PathExists ?stamp, E_Sleep_Second, E_PathExists ?stamp, E_Sleep_Second,
      E_PathExists ?stamp]
   \<and> length (filter (\<lambda>ev. ev = E_Sleep_Second)
        (snd (enterContainer hostWorld ?c True ?img ''33''
             [''/bin/zsh'', ''-l''] True True False))) = 2"
    by (simp add: tr numeral_2_eq_2)
  from b have b': "enterContainer ?never ?c True ?img ''33''
        [''/bin/zsh'', ''-l''] True True False =
      (Return (Some (ErrorsNew ''failed to initialize container fedora-toolbox-33'')),
       [E_ContainerExists ?c, E_callFlatpakSessionHelper ?c,
        E_startContainer ?c, E_getEntryPointAndPID ?c]
       @ concat (replicate 25 [E_PathExists ?stamp, E_Sleep_Second])
       @ [E_PathExists ?stamp])"
    by (simp add: tr)
  from a' b' show ?thesis by blast
qed


lemma filter_polls:
  "filter is_PathExists (concat (replicate n [E_PathExists s, E_Sleep_Second])) =
     replicate n (E_PathExists s)"
  "filter (\<lambda>ev. ev = E_Sleep_Second) (concat (replicate n [E_PathExists s, E_Sleep_Second])) =
     replicate n E_Sleep_Second"
  by (induction n) (simp_all add: is_PathExists_def)

text \<open>
  The claim as worded fails: when the stamp is absent at each of the first 25 polls
  (seconds 0 to 24) and there from second 25 on, the run does not end with the
  initialization error. It polls a 26th time, after 25 sleeps, and enters the container.
\<close>

theorem C2_twenty_sixth_poll_counterexample:
  "filter (\<lambda>t. pathExists (hostWorld\<lparr>pathExists := \<lambda>t _. 25 \<le> t\<rparr>) t
             ''/run/user/1000/toolbox/container-initialized-4242'') [0..<25] = []
   \<and> fst (enterContainer (hostWorld\<lparr>pathExists := \<lambda>t _. 25 \<le> t\<rparr>) ''fedora-toolbox-33'' True
            ''registry.fedoraproject.org/f33/fedora-toolbox:33'' ''33''
            [''/bin/zsh'', ''-l''] True True False) = Return None
   \<and> length (filter is_PathExists
        (snd (enterContainer (hostWorld\<lparr>pathExists := \<lambda>t _. 25 \<le> t\<rparr>) ''fedora-toolbox-33'' True
            ''registry.fedoraproject.org/f33/fedora-toolbox:33'' ''33''
            [''/bin/zsh'', ''-l''] True True False))) = 26
   \<and> length (filter (\<lambda>ev. ev = E_Sleep_Second)
        (snd (enterContainer (hostWorld\<lparr>pathExists := \<lambda>t _. 25 \<le> t\<rparr>) ''fedora-toolbox-33'' True
            ''registry.fedoraproject.org/f33/fedora-toolbox:33'' ''33''
            [''/bin/zsh'', ''-l''] True True False))) = 25"
proof -
  let ?late = "hostWorld\<lparr>pathExists := \<lambda>t _. 25 \<le> t\<rparr>"
  let ?img = "''registry.fedoraproject.org/f33/fedora-toolbox:33''"
  let ?c = "''fedora-toolbox-33''"
  let ?stamp = "''/run/user/1000/toolbox/container-initialized-4242''"
  let ?cmd = "[''/bin/zsh'', ''-l'']"
  have absent: "filter (\<lambda>t. pathExists ?late t ?stamp) [0..<25] = []"
    by (simp add: filter_empty_conv)
  have pre: "False \<or> (?img \<noteq> [] \<and> ''33'' \<noteq> [])" by simp
  have sel: "fst (containerToEnter ?late ?c True ?img ''33'' False) = Inr ?c"
    and tr: "snd (containerToEnter ?late ?c True ?img ''33'' False) = [E_ContainerExists ?c]"
    by (simp_all add: containerToEnter_def hostWorld_sel)
  have ok: "callFlatpakSessionHelper ?late ?c = None" "startContainer ?late ?c = None"
    and ep: "getEntryPointAndPID ?late ?c = Inr (''toolbox'', 4242)"
    by (simp_all add: hostWorld_sel)
  have pid: "(0::int) < 4242" by simp
  have stamp: "''/run/user/1000/toolbox'' @ ''/container-initialized-'' @ fmt_d 4242 = ?stamp"
    by (simp add: fmt_d_def decimal.simps)
  have "waitForStamp ?late ?c ?stamp 0 0 =
      (None, concat (replicate 25 [E_PathExists ?stamp, E_Sleep_Second]) @ [E_PathExists ?stamp])"
    by (rule waitForStamp_found) simp_all
  then have wait: "waitAndEnter ?late ?c 4242 ?cmd True True =
      prepend (concat (replicate 25 [E_PathExists ?stamp, E_Sleep_Second]) @ [E_PathExists ?stamp])
        (enterInitialized ?late ?c ?cmd True True)"
    by (simp add: waitAndEnter_def Let_def hostWorld_sel fmt_d_def decimal.simps
          split: option.split)
  have rest: "fst (enterInitialized ?late ?c ?cmd True True) = Return None"
    "filter is_PathExists (snd (enterInitialized ?late ?c ?cmd True True)) = []"
    "filter (\<lambda>ev. ev = E_Sleep_Second) (snd (enterInitialized ?late ?c ?cmd True True)) = []"
    by (simp_all add: hostWorld_sel enterInitialized_def runPodmanExec_def execArgs_def
          classifyExitCode_def prepend_def Let_def is_PathExists_def)
  have run: "enterContainer ?late ?c True ?img ''33'' ?cmd True True False =
      prepend ([E_ContainerExists ?c, E_callFlatpakSessionHelper ?c, E_startContainer ?c,
                E_getEntryPointAndPID ?c]
               @ concat (replicate 25 [E_PathExists ?stamp, E_Sleep_Second])
               @ [E_PathExists ?stamp])
        (enterInitialized ?late ?c ?cmd True True)"
    unfolding enterContainer_validated [OF pre sel ok ep pid] wait tr
    by (simp add: prepend_def)
  show ?thesis
    unfolding run using absent rest
    by (simp add: filter_polls is_PathExists_def)
qed


section \<open>The argument vector and the exit code of podman exec\<close>

lemma exec_classified:
  assumes "E_RunWithExitCode p args \<in>
             set (snd (enterContainer w container dc image' release command emit fb ped))"
  shows "\<exists>c cmd pre. enterContainer w container dc image' release command emit fb ped =
           prepend pre (classifyExitCode w c cmd (fst (runWithExitCode w p args))
                          (snd (runWithExitCode w p args)))"
proof -
  from exec_reached [OF assms] obtain c c0 cs where
    sel: "fst (containerToEnter w container dc image' release ped) = Inr c"
    and cmd: "command = c0 # cs"
    by blast
  from exec_outcome [OF assms [unfolded cmd] sel refl] cmd show ?thesis
    by blast
qed

lemma host_reaches_exec:
  "E_RunWithExitCode ''podman'' hostArgs \<in>
     set (snd (enterContainer (hostWorld\<lparr>runWithExitCode := r, isPathPresent := q\<rparr>)
       ''fedora-toolbox-33'' True ''registry.fedoraproject.org/f33/fedora-toolbox:33'' ''33''
       [''/bin/zsh'', ''-l''] True True False))"
  by (simp add: run_defs hostArgs_def)

lemma host_selects:
  "fst (containerToEnter (hostWorld\<lparr>runWithExitCode := r, isPathPresent := q\<rparr>)
     ''fedora-toolbox-33'' True ''registry.fedoraproject.org/f33/fedora-toolbox:33'' ''33'' False)
   = Inr ''fedora-toolbox-33''"
  by (simp add: containerToEnter_def hostWorld_sel)

text \<open>
  C3, as the code has it. When the run reaches \<open>podman exec\<close> and the exit code of
  that process is none of 0, 125, 126 and 127, enterContainer returns \<open>nil\<close>: the
  \<open>default\<close> branch of the switch drops the error of the invocation and nothing hands
  the exit code to the caller.
\<close>

theorem C3_other_exit_codes_return_nil:
  assumes "E_RunWithExitCode p args \<in>
             set (snd (enterContainer w container dc image' release command emit fb ped))"
    and "fst (runWithExitCode w p args) \<notin> {0, 125, 126, 127}"
  shows "fst (enterContainer w container dc image' release command emit fb ped) = Return None"
proof -
  from exec_classified [OF assms(1)] obtain c cmd pre where
    "enterContainer w container dc image' release command emit fb ped =
       prepend pre (classifyExitCode w c cmd (fst (runWithExitCode w p args))
                      (snd (runWithExitCode w p args)))"
    by blast
  with assms(2) show ?thesis
    by (simp add: classifyExitCode_def)
qed

theorem C3_other_exit_codes_return_nil_witness:
  "fst (enterContainer
     (hostWorld\<lparr>runWithExitCode := \<lambda>_ _. (42, Some (CollaboratorError ''exit status 42'')),
                 isPathPresent := \<lambda>_ _. True\<rparr>)
     ''fedora-toolbox-33'' True ''registry.fedoraproject.org/f33/fedora-toolbox:33'' ''33''
     [''/bin/zsh'', ''-l''] True True False) = Return None"
proof -
  have code: "fst (runWithExitCode
      (hostWorld\<lparr>runWithExitCode := \<lambda>_ _. (42, Some (CollaboratorError ''exit status 42'')),
                  isPathPresent := \<lambda>_ _. True\<rparr>) ''podman'' hostArgs) \<notin> {0, 125, 126, 127}"
    by simp
  from C3_other_exit_codes_return_nil [OF host_reaches_exec code] show ?thesis .
qed

text \<open>
  The claim as worded fails: the wrapped process ends with exit code 1, and both
  enterContainer and \<open>enter\<close> return \<open>nil\<close>, the value they return when the process
  ends with exit code 0. The caller cannot exit with a status that is not zero.
\<close>

theorem C3_exit_code_one_counterexample:
  "fst (runWithExitCode
     (hostWorld\<lparr>runWithExitCode := \<lambda>_ _. (1, Some (CollaboratorError ''exit status 1''))\<rparr>)
     ''podman'' hostArgs) = 1
   \<and> E_RunWithExitCode ''podman'' hostArgs \<in>
       set (snd (enter
         (hostWorld\<lparr>runWithExitCode := \<lambda>_ _. (1, Some (CollaboratorError ''exit status 1''))\<rparr>)
         []))
   \<and> fst (enter
       (hostWorld\<lparr>runWithExitCode := \<lambda>_ _. (1, Some (CollaboratorError ''exit status 1''))\<rparr>)
       []) = Return None
   \<and> fst (enterContainer
       (hostWorld\<lparr>runWithExitCode := \<lambda>_ _. (1, Some (CollaboratorError ''exit status 1''))\<rparr>)
       ''fedora-toolbox-33'' True ''registry.fedoraproject.org/f33/fedora-toolbox:33'' ''33''
       [''/bin/zsh'', ''-l''] True True False) = Return None
   \<and> fst (enter hostWorld []) = Return None"
  by (simp add: enter_def supplied_def run_defs hostArgs_def)

text \<open>
  C5. When the run reaches \<open>podman exec\<close> and the exit code is 0: if the invocation
  also reported an error, enterContainer panics; if enterContainer does not panic, it
  returns \<open>nil\<close>.
\<close>

theorem C5_exit_code_zero:
  assumes "E_RunWithExitCode p args \<in>
             set (snd (enterContainer w container dc image' release command emit fb ped))"
    and "fst (runWithExitCode w p args) = 0"
  shows
    "(snd (runWithExitCode w p args) \<noteq> None \<longrightarrow>
        fst (enterContainer w container dc image' release command emit fb ped) =
          Panic ''unexpected error: 'podman exec' finished successfully'')
     \<and> ((\<forall>msg. fst (enterContainer w container dc image' release command emit fb ped)
                 \<noteq> Panic msg) \<longrightarrow>
        fst (enterContainer w container dc image' release command emit fb ped) = Return None
        \<and> snd (runWithExitCode w p args) = None)"
proof -
  from exec_classified [OF assms(1)] obtain c cmd pre where
    "enterContainer w container dc image' release command emit fb ped =
       prepend pre (classifyExitCode w c cmd (fst (runWithExitCode w p args))
                      (snd (runWithExitCode w p args)))"
    by blast
  with assms(2) show ?thesis
    by (cases "snd (runWithExitCode w p args)") (simp_all add: classifyExitCode_def)
qed

theorem C5_exit_code_zero_witness:
  "fst (enterContainer
     (hostWorld\<lparr>runWithExitCode := \<lambda>_ _. (0, Some (CollaboratorError ''wait: no child'')),
                 isPathPresent := \<lambda>_ _. True\<rparr>)
     ''fedora-toolbox-33'' True ''registry.fedoraproject.org/f33/fedora-toolbox:33'' ''33''
     [''/bin/zsh'', ''-l''] True True False) =
     Panic ''unexpected error: 'podman exec' finished successfully''
   \<and> fst (enterContainer
     (hostWorld\<lparr>runWithExitCode := \<lambda>_ _. (0, None), isPathPresent := \<lambda>_ _. True\<rparr>)
     ''fedora-toolbox-33'' True ''registry.fedoraproject.org/f33/fedora-toolbox:33'' ''33''
     [''/bin/zsh'', ''-l''] True True False) = Return None"
proof -
  let ?bad = "hostWorld\<lparr>runWithExitCode := \<lambda>_ _. (0, Some (CollaboratorError ''wait: no child'')),
                         isPathPresent := \<lambda>_ _. True\<rparr>"
  let ?good = "hostWorld\<lparr>runWithExitCode := \<lambda>_ _. (0, None), isPathPresent := \<lambda>_ _. True\<rparr>"
  have zero: "fst (runWithExitCode ?bad ''podman'' hostArgs) = 0"
    "fst (runWithExitCode ?good ''podman'' hostArgs) = 0"
    by simp_all
  have err: "snd (runWithExitCode ?bad ''podman'' hostArgs) \<noteq> None"
    by simp
  have calm: "\<forall>msg. fst (enterContainer ?good ''fedora-toolbox-33'' True
      ''registry.fedoraproject.org/f33/fedora-toolbox:33'' ''33''
      [''/bin/zsh'', ''-l''] True True False) \<noteq> Panic msg"
    by (simp add: run_defs)
  from C5_exit_code_zero [OF host_reaches_exec zero(1), THEN conjunct1, THEN mp, OF err]
    C5_exit_code_zero [OF host_reaches_exec zero(2), THEN conjunct2, THEN mp, OF calm]
  show ?thesis by blast
qed

text \<open>
  C4. When the run reaches \<open>podman exec\<close> for the chosen container \<open>c\<close>, with
  \<open>cmd0\<close> the first word of the command that is run (the requested one, or
  \<open>/bin/bash\<close> after the fallback): exit code 125 gives "failed to invoke 'podman exec'
  in container c"; 126 gives "failed to invoke command cmd0 in container c"; 127 asks
  \<open>isPathPresent\<close> for the working directory in \<open>c\<close> and gives "directory ... not
  found in container c" when it is absent, "command cmd0 not found in container c"
  otherwise.
\<close>

theorem C4_exit_codes_125_126_127:
  assumes "E_RunWithExitCode p args \<in>
             set (snd (enterContainer w container dc image' release (c0 # cs) emit fb ped))"
    and "fst (containerToEnter w container dc image' release ped) = Inr c"
    and "cmd0 = (if isCommandPresent w c c0 then c0 else ''/bin/bash'')"
  shows
    "(fst (runWithExitCode w p args) = 125 \<longrightarrow>
        fst (enterContainer w container dc image' release (c0 # cs) emit fb ped) =
          Return (Some (ErrorsNew (''failed to invoke 'podman exec' in container '' @ c))))
     \<and> (fst (runWithExitCode w p args) = 126 \<longrightarrow>
        fst (enterContainer w container dc image' release (c0 # cs) emit fb ped) =
          Return (Some (ErrorsNew
            (''failed to invoke command '' @ cmd0 @ '' in container '' @ c))))
     \<and> (fst (runWithExitCode w p args) = 127 \<longrightarrow>
        E_isPathPresent c (workingDirectory w) \<in>
          set (snd (enterContainer w container dc image' release (c0 # cs) emit fb ped))
        \<and> fst (enterContainer w container dc image' release (c0 # cs) emit fb ped) =
          Return (Some (ErrorsNew
            (if isPathPresent w c (workingDirectory w)
             then ''command '' @ cmd0 @ '' not found in container '' @ c
             else ''directory '' @ workingDirectory w @ '' not found in container '' @ c))))"
proof -
  from exec_outcome [OF assms(1,2) refl] obtain pre where
    e: "enterContainer w container dc image' release (c0 # cs) emit fb ped =
       prepend pre
         (classifyExitCode w c
            (if isCommandPresent w c c0 then c0 # cs else [''/bin/bash'', ''-l''])
            (fst (runWithExitCode w p args)) (snd (runWithExitCode w p args)))"
    by blast
  show ?thesis
    unfolding e assms(3)
    by (cases "isCommandPresent w c c0") (simp_all add: classifyExitCode_def)
qed

theorem C4_exit_codes_125_126_127_witness:
  "fst (enterContainer
     (hostWorld\<lparr>runWithExitCode := \<lambda>_ _. (125, Some (CollaboratorError ''exit status 125'')),
                 isPathPresent := \<lambda>_ _. True\<rparr>)
     ''fedora-toolbox-33'' True ''registry.fedoraproject.org/f33/fedora-toolbox:33'' ''33''
     [''/bin/zsh'', ''-l''] True True False) =
     Return (Some (ErrorsNew ''failed to invoke 'podman exec' in container fedora-toolbox-33''))
   \<and> fst (enterContainer
     (hostWorld\<lparr>runWithExitCode := \<lambda>_ _. (126, Some (CollaboratorError ''exit status 126'')),
                 isPathPresent := \<lambda>_ _. True\<rparr>)
     ''fedora-toolbox-33'' True ''registry.fedoraproject.org/f33/fedora-toolbox:33'' ''33''
     [''/bin/zsh'', ''-l''] True True False) =
     Return (Some (ErrorsNew ''failed to invoke command /bin/bash in container fedora-toolbox-33''))
   \<and> fst (enterContainer
     (hostWorld\<lparr>runWithExitCode := \<lambda>_ _. (127, Some (CollaboratorError ''exit status 127'')),
                 isPathPresent := \<lambda>_ _. True\<rparr>)
     ''fedora-toolbox-33'' True ''registry.fedoraproject.org/f33/fedora-toolbox:33'' ''33''
     [''/bin/zsh'', ''-l''] True True False) =
     Return (Some (ErrorsNew ''command /bin/bash not found in container fedora-toolbox-33''))
   \<and> fst (enterContainer
     (hostWorld\<lparr>runWithExitCode := \<lambda>_ _. (127, Some (CollaboratorError ''exit status 127'')),
                 isPathPresent := \<lambda>_ _. False\<rparr>)
     ''fedora-toolbox-33'' True ''registry.fedoraproject.org/f33/fedora-toolbox:33'' ''33''
     [''/bin/zsh'', ''-l''] True True False) =
     Return (Some (ErrorsNew ''directory /home/alice not found in container fedora-toolbox-33''))"
proof -
  have bash: "''/bin/bash'' =
      (if isCommandPresent (hostWorld\<lparr>runWithExitCode := r, isPathPresent := q\<rparr>)
            ''fedora-toolbox-33'' ''/bin/zsh'' then ''/bin/zsh'' else ''/bin/bash'')" for r q
    by (simp add: hostWorld_sel)
  have "fst (enterContainer
     (hostWorld\<lparr>runWithExitCode := \<lambda>_ _. (125, Some (CollaboratorError ''exit status 125'')),
                 isPathPresent := \<lambda>_ _. True\<rparr>)
     ''fedora-toolbox-33'' True ''registry.fedoraproject.org/f33/fedora-toolbox:33'' ''33''
     [''/bin/zsh'', ''-l''] True True False) =
     Return (Some (ErrorsNew ''failed to invoke 'podman exec' in container fedora-toolbox-33''))"
    using C4_exit_codes_125_126_127
      [OF host_reaches_exec [where r = "\<lambda>_ _. (125, Some (CollaboratorError ''exit status 125''))" and q = "\<lambda>_ _. True"]
          host_selects [where r = "\<lambda>_ _. (125, Some (CollaboratorError ''exit status 125''))" and q = "\<lambda>_ _. True"]
          bash [where r = "\<lambda>_ _. (125, Some (CollaboratorError ''exit status 125''))" and q = "\<lambda>_ _. True"],
       THEN conjunct1]
    by simp
  moreover have "fst (enterContainer
     (hostWorld\<lparr>runWithExitCode := \<lambda>_ _. (126, Some (CollaboratorError ''exit status 126'')),
                 isPathPresent := \<lambda>_ _. True\<rparr>)
     ''fedora-toolbox-33'' True ''registry.fedoraproject.org/f33/fedora-toolbox:33'' ''33''
     [''/bin/zsh'', ''-l''] True True False) =
     Return (Some (ErrorsNew ''failed to invoke command /bin/bash in container fedora-toolbox-33''))"
    using C4_exit_codes_125_126_127
      [OF host_reaches_exec [where r = "\<lambda>_ _. (126, Some (CollaboratorError ''exit status 126''))" and q = "\<lambda>_ _. True"]
          host_selects [where r = "\<lambda>_ _. (126, Some (CollaboratorError ''exit status 126''))" and q = "\<lambda>_ _. True"]
          bash [where r = "\<lambda>_ _. (126, Some (CollaboratorError ''exit status 126''))" and q = "\<lambda>_ _. True"],
       THEN conjunct2, THEN conjunct1]
    by simp
  moreover have "fst (enterContainer
     (hostWorld\<lparr>runWithExitCode := \<lambda>_ _. (127, Some (CollaboratorError ''exit status 127'')),
                 isPathPresent := \<lambda>_ _. True\<rparr>)
     ''fedora-toolbox-33'' True ''registry.fedoraproject.org/f33/fedora-toolbox:33'' ''33''
     [''/bin/zsh'', ''-l''] True True False) =
     Return (Some (ErrorsNew ''command /bin/bash not found in container fedora-toolbox-33''))"
    using C4_exit_codes_125_126_127
      [OF host_reaches_exec [where r = "\<lambda>_ _. (127, Some (CollaboratorError ''exit status 127''))" and q = "\<lambda>_ _. True"]
          host_selects [where r = "\<lambda>_ _. (127, Some (CollaboratorError ''exit status 127''))" and q = "\<lambda>_ _. True"]
          bash [where r = "\<lambda>_ _. (127, Some (CollaboratorError ''exit status 127''))" and q = "\<lambda>_ _. True"],
       THEN conjunct2, THEN conjunct2]
    by (simp add: hostWorld_sel)
  moreover have "fst (enterContainer
     (hostWorld\<lparr>runWithExitCode := \<lambda>_ _. (127, Some (CollaboratorError ''exit status 127'')),
                 isPathPresent := \<lambda>_ _. False\<rparr>)
     ''fedora-toolbox-33'' True ''registry.fedoraproject.org/f33/fedora-toolbox:33'' ''33''
     [''/bin/zsh'', ''-l''] True True False) =
     Return (Some (ErrorsNew ''directory /home/alice not found in container fedora-toolbox-33''))"
    using C4_exit_codes_125_126_127
      [OF host_reaches_exec [where r = "\<lambda>_ _. (127, Some (CollaboratorError ''exit status 127''))" and q = "\<lambda>_ _. False"]
          host_selects [where r = "\<lambda>_ _. (127, Some (CollaboratorError ''exit status 127''))" and q = "\<lambda>_ _. False"]
          bash [where r = "\<lambda>_ _. (127, Some (CollaboratorError ''exit status 127''))" and q = "\<lambda>_ _. False"],
       THEN conjunct2, THEN conjunct2]
    by (simp add: hostWorld_sel)
  ultimately show ?thesis by blast
qed

text \<open>
  C9. The argument vector built in lines 297 to 330 for a container and a command is, in
  this order: \<open>--log-level\<close> and the level, \<open>exec\<close>, \<open>--detach-keys ""\<close> exactly when
  \<open>podman.CheckVersion("1.8.1")\<close> holds, \<open>--interactive\<close>, \<open>--tty\<close>, \<open>--user\<close> and
  the user name, \<open>--workdir\<close> and the working directory, the options for the preserved
  environment variables, the container, \<open>capsh --caps= -- -c 'exec "$@"' /bin/sh\<close>, and
  the command. Whenever a run of enterContainer executes a process, it is \<open>podman\<close>
  with the vector built for the chosen container and for the command that passed the
  check of lines 283 to 295 (the requested one, or \<open>/bin/bash -l\<close> after the fallback).
  Building the vector cannot fail: once the command is found or the fallback is allowed,
  the execution is part of the run.
\<close>

theorem C9_exec_argument_vector:
  assumes "E_RunWithExitCode p args \<in>
             set (snd (enterContainer w container dc image' release (c0 # cs) emit fb ped))"
    and "fst (containerToEnter w container dc image' release ped) = Inr c"
  shows
    "execArgs w target cmd =
         [''--log-level'', logLevel w, ''exec'']
         @ (if checkVersion w ''1.8.1'' then [''--detach-keys'', ''''] else [])
         @ [''--interactive'', ''--tty'',
            ''--user'', currentUser_Username w,
            ''--workdir'', workingDirectory w]
         @ getEnvOptionsForPreservedVariables w
         @ [target, ''capsh'', ''--caps='', ''--'', ''-c'', ''exec \"$@\"'', ''/bin/sh'']
         @ cmd
     \<and> p = ''podman''
     \<and> args = execArgs w c (if isCommandPresent w c c0 then c0 # cs
                             else [''/bin/bash'', ''-l''])
     \<and> (isCommandPresent w target prog \<or> fb' \<longrightarrow>
          E_RunWithExitCode ''podman''
            (execArgs w target
               (if isCommandPresent w target prog then prog # rest
                else [''/bin/bash'', ''-l'']))
          \<in> set (snd (enterInitialized w target (prog # rest) emit' fb')))"
proof -
  have built: "execArgs w target cmd =
         [''--log-level'', logLevel w, ''exec'']
         @ (if checkVersion w ''1.8.1'' then [''--detach-keys'', ''''] else [])
         @ [''--interactive'', ''--tty'',
            ''--user'', currentUser_Username w,
            ''--workdir'', workingDirectory w]
         @ getEnvOptionsForPreservedVariables w
         @ [target, ''capsh'', ''--caps='', ''--'', ''-c'', ''exec \"$@\"'', ''/bin/sh'']
         @ cmd"
    by (simp add: execArgs_def Let_def)
  from exec_outcome [OF assms(1,2) refl] have run:
    "p = ''podman''"
    "args = execArgs w c (if isCommandPresent w c c0 then c0 # cs else [''/bin/bash'', ''-l''])"
    by blast+
  have total: "isCommandPresent w target prog \<or> fb' \<longrightarrow>
          E_RunWithExitCode ''podman''
            (execArgs w target
               (if isCommandPresent w target prog then prog # rest
                else [''/bin/bash'', ''-l'']))
          \<in> set (snd (enterInitialized w target (prog # rest) emit' fb'))"
    by (simp add: enterInitialized_def runPodmanExec_def Let_def)
  from built run total show ?thesis
    by blast
qed

theorem C9_exec_argument_vector_witness:
  "hostArgs =
     [''--log-level'', ''error'', ''exec'', ''--detach-keys'', [], ''--interactive'', ''--tty'',
      ''--user'', ''alice'', ''--workdir'', ''/home/alice'', ''--env'', ''TERM=xterm'',
      ''fedora-toolbox-33'', ''capsh'', ''--caps='', ''--'', ''-c'', ''exec \"$@\"'', ''/bin/sh'',
      ''/bin/bash'', ''-l'']
   \<and> E_RunWithExitCode ''podman''
        [''--log-level'', ''error'', ''exec'', ''--detach-keys'', [], ''--interactive'', ''--tty'',
         ''--user'', ''alice'', ''--workdir'', ''/home/alice'', ''--env'', ''TERM=xterm'',
         ''dev'', ''capsh'', ''--caps='', ''--'', ''-c'', ''exec \"$@\"'', ''/bin/sh'',
         ''/bin/bash'', ''-c'', ''make'']
      \<in> set (snd (enterInitialized
                      (hostWorld\<lparr>runWithExitCode := \<lambda>_ _. (0, None),
                                  isPathPresent := \<lambda>_ _. True\<rparr>) ''dev''
                      [''/bin/bash'', ''-c'', ''make''] False False))
   \<and> E_RunWithExitCode ''podman''
        [''--log-level'', ''error'', ''exec'', ''--interactive'', ''--tty'',
         ''--user'', ''alice'', ''--workdir'', ''/home/alice'', ''--env'', ''TERM=xterm'',
         ''fedora-toolbox-33'', ''capsh'', ''--caps='', ''--'', ''-c'', ''exec \"$@\"'', ''/bin/sh'',
         ''/bin/bash'', ''-l'']
      \<in> set (snd (enterContainer (hostWorld\<lparr>checkVersion := \<lambda>_. False\<rparr>)
                      ''fedora-toolbox-33'' True
                      ''registry.fedoraproject.org/f33/fedora-toolbox:33'' ''33''
                      [''/bin/zsh'', ''-l''] True True False))"
proof -
  note reach = host_reaches_exec [where r = "\<lambda>_ _. (0, None)" and q = "\<lambda>_ _. True"]
  note sel = host_selects [where r = "\<lambda>_ _. (0, None)" and q = "\<lambda>_ _. True"]
  from C9_exec_argument_vector [OF reach sel, THEN conjunct2, THEN conjunct2, THEN conjunct1]
  have a: "hostArgs =
     [''--log-level'', ''error'', ''exec'', ''--detach-keys'', [], ''--interactive'', ''--tty'',
      ''--user'', ''alice'', ''--workdir'', ''/home/alice'', ''--env'', ''TERM=xterm'',
      ''fedora-toolbox-33'', ''capsh'', ''--caps='', ''--'', ''-c'', ''exec \"$@\"'', ''/bin/sh'',
      ''/bin/bash'', ''-l'']"
    by (simp add: hostWorld_sel execArgs_def Let_def)
  have present: "isCommandPresent
      (hostWorld\<lparr>runWithExitCode := \<lambda>_ _. (0, None), isPathPresent := \<lambda>_ _. True\<rparr>)
      ''dev'' ''/bin/bash'' \<or> False"
    by (simp add: hostWorld_sel)
  from C9_exec_argument_vector [OF reach sel,
      where target = "''dev''" and prog = "''/bin/bash''" and fb' = False
        and rest = "[''-c'', ''make'']" and emit' = False,
      THEN conjunct2, THEN conjunct2, THEN conjunct2, THEN mp, OF present]
  have b: "E_RunWithExitCode ''podman''
        [''--log-level'', ''error'', ''exec'', ''--detach-keys'', [], ''--interactive'', ''--tty'',
         ''--user'', ''alice'', ''--workdir'', ''/home/alice'', ''--env'', ''TERM=xterm'',
         ''dev'', ''capsh'', ''--caps='', ''--'', ''-c'', ''exec \"$@\"'', ''/bin/sh'',
         ''/bin/bash'', ''-c'', ''make'']
      \<in> set (snd (enterInitialized
                      (hostWorld\<lparr>runWithExitCode := \<lambda>_ _. (0, None),
                                  isPathPresent := \<lambda>_ _. True\<rparr>) ''dev''
                      [''/bin/bash'', ''-c'', ''make''] False False))"
    by (simp add: hostWorld_sel execArgs_def Let_def)
  have c: "E_RunWithExitCode ''podman''
        [''--log-level'', ''error'', ''exec'', ''--interactive'', ''--tty'',
         ''--user'', ''alice'', ''--workdir'', ''/home/alice'', ''--env'', ''TERM=xterm'',
         ''fedora-toolbox-33'', ''capsh'', ''--caps='', ''--'', ''-c'', ''exec \"$@\"'', ''/bin/sh'',
         ''/bin/bash'', ''-l'']
      \<in> set (snd (enterContainer (hostWorld\<lparr>checkVersion := \<lambda>_. False\<rparr>)
                      ''fedora-toolbox-33'' True
                      ''registry.fedoraproject.org/f33/fedora-toolbox:33'' ''33''
                      [''/bin/zsh'', ''-l''] True True False))"
    by (simp add: run_defs)
  from a b c show ?thesis by blast
qed


section \<open>The container name given to enter\<close>

text \<open>
  C8, as the code has it. On the host, that is when \<open>utils.IsInsideContainer()\<close> is
  false, a name that is supplied (the first positional argument, else the option
  \<open>--container\<close>; the empty string counts as none) and that
  \<open>utils.IsContainerNameValid\<close> rejects makes \<open>enter\<close> return the error
  "invalid argument for '...'", whose second line quotes \<open>utils.ContainerNameRegexp\<close>,
  before any action: the run is empty, so no call reached the container engine.
\<close>

theorem C8_invalid_name_rejected_on_host:
  assumes "\<not> isInsideContainer w"
    and "supplied w args \<noteq> []"
    and "\<not> isContainerNameValid w (supplied w args)"
  shows
    "enter w args =
       (Return (Some (ErrorsNew
          (''invalid argument for '' @ [CHR 0x27] @ containerArg w args @ [CHR 0x27, CHR 0x0A]
           @ ''Container names must match '' @ [CHR 0x27] @ containerNameRegexp w
           @ [CHR 0x27, CHR 0x0A]
           @ ''Run '' @ [CHR 0x27] @ executableBase w @ '' --help' for usage.''))),
        [])
     \<and> supplied w (a # others) = a
     \<and> containerArg w (a # others) = ''CONTAINER''
     \<and> (enterFlags_container w \<noteq> [] \<longrightarrow>
          supplied w [] = enterFlags_container w \<and> containerArg w [] = ''--container'')"
  using assms by (simp add: enter_def Let_def supplied_def containerArg_def)

theorem C8_invalid_name_rejected_on_host_witness:
  "enter (hostWorld\<lparr>enterFlags_container := ''dev''\<rparr>) [''bad name''] =
     (Return (Some (ErrorsNew
        (''invalid argument for 'CONTAINER'' @ [CHR 0x27, CHR 0x0A]
         @ ''Container names must match '^[a-zA-Z0-9][a-zA-Z0-9_.-]*$'' @ [CHR 0x27, CHR 0x0A]
         @ ''Run 'toolbox --help' for usage.''))),
      [])
   \<and> enter (hostWorld\<lparr>enterFlags_container := ''bad name''\<rparr>) [] =
     (Return (Some (ErrorsNew
        (''invalid argument for '--container'' @ [CHR 0x27, CHR 0x0A]
         @ ''Container names must match '^[a-zA-Z0-9][a-zA-Z0-9_.-]*$'' @ [CHR 0x27, CHR 0x0A]
         @ ''Run 'toolbox --help' for usage.''))),
      [])"
proof -
  let ?pos = "hostWorld\<lparr>enterFlags_container := ''dev''\<rparr>"
  let ?opt = "hostWorld\<lparr>enterFlags_container := ''bad name''\<rparr>"
  have host: "\<not> isInsideContainer ?pos" "\<not> isInsideContainer ?opt"
    by (simp_all add: hostWorld_sel)
  have given: "supplied ?pos [''bad name''] \<noteq> []" "supplied ?opt [] \<noteq> []"
    by (simp_all add: supplied_def)
  have bad: "\<not> isContainerNameValid ?pos (supplied ?pos [''bad name''])"
    "\<not> isContainerNameValid ?opt (supplied ?opt [])"
    by (simp_all add: supplied_def hostWorld_sel)
  have flag: "enterFlags_container ?opt \<noteq> []" by simp
  note p = C8_invalid_name_rejected_on_host [OF host(1) given(1) bad(1),
      where a = "''bad name''" and others = "[]"]
  note q = C8_invalid_name_rejected_on_host [OF host(2) given(2) bad(2)]
  note q' = q [THEN conjunct2, THEN conjunct2, THEN conjunct2, THEN mp, OF flag]
  from p have a: "enter ?pos [''bad name''] =
     (Return (Some (ErrorsNew
        (''invalid argument for 'CONTAINER'' @ [CHR 0x27, CHR 0x0A]
         @ ''Container names must match '^[a-zA-Z0-9][a-zA-Z0-9_.-]*$'' @ [CHR 0x27, CHR 0x0A]
         @ ''Run 'toolbox --help' for usage.''))),
      [])"
    by (simp add: hostWorld_sel)
  from q [THEN conjunct1] q' have b: "enter ?opt [] =
     (Return (Some (ErrorsNew
        (''invalid argument for '--container'' @ [CHR 0x27, CHR 0x0A]
         @ ''Container names must match '^[a-zA-Z0-9][a-zA-Z0-9_.-]*$'' @ [CHR 0x27, CHR 0x0A]
         @ ''Run 'toolbox --help' for usage.''))),
      [])"
    by (simp add: hostWorld_sel)
  from a b show ?thesis by blast
qed

text \<open>
  The claim as worded fails inside a toolbox container: \<open>enter\<close> hands the command
  to the host before it looks at the name, and returns what \<open>utils.ForwardToHost\<close>
  returns; here that is \<open>nil\<close>, for a name the validator rejects.
\<close>

theorem C8_forwarded_inside_container_counterexample:
  "\<not> isContainerNameValid
       (hostWorld\<lparr>isInsideContainer := True, isInsideToolboxContainer := True\<rparr>) ''bad name''
   \<and> supplied (hostWorld\<lparr>isInsideContainer := True, isInsideToolboxContainer := True\<rparr>)
        [''bad name''] = ''bad name''
   \<and> enter (hostWorld\<lparr>isInsideContainer := True, isInsideToolboxContainer := True\<rparr>)
        [''bad name''] = (Return None, [E_ForwardToHost])"
  by (simp add: enter_def supplied_def hostWorld_sel prepend_def)

end
